theory Spec2Isabelle
  imports
    Main
    "HOL-Library.Multiset"
    "HOL-Library.Sublist"
    "HOL-Library.List_Lexorder"
    "HOL-Library.Product_Lexorder"
begin

section \<open>mulysu: a song database with votable resources\<close>

text \<open>
  A shallow embedding of \<^verbatim>\<open>src/mulysu.py\<close>. The two dataclasses are records, the
  \<^verbatim>\<open>SongDatabase\<close> instance together with its environment (the file \<^verbatim>\<open>db.json\<close>,
  standard input and standard output) is the record \<open>world\<close>, and every method is a
  function that takes the world and returns the new one, or the exception that escapes
  the method together with the world at the moment it is raised.

  Modelled are \<^verbatim>\<open>load\<close>, \<^verbatim>\<open>save\<close>, \<^verbatim>\<open>_sort_resources\<close>, \<^verbatim>\<open>search\<close>, \<^verbatim>\<open>add_song\<close> and
  \<^verbatim>\<open>vote_on_resource\<close>. The methods \<^verbatim>\<open>display_song\<close>, \<^verbatim>\<open>display_search_results\<close> and
  \<^verbatim>\<open>list_all\<close> and the menu loop \<^verbatim>\<open>main\<close> only read the collection and print; they
  are not modelled. Not modelled either are a \<^verbatim>\<open>KeyboardInterrupt\<close> during a prompt and
  a failure of the operating system to read or write the file. Standard output is taken
  to accept every string: the program does not set its encoding, so whether \<^verbatim>\<open>print\<close>
  can fail on a character is a matter of the environment. The integers of a document
  and the vote counters are taken to be below the interpreter's limit for the
  conversion between \<^verbatim>\<open>int\<close> and \<^verbatim>\<open>str\<close> (4300 digits by default). The non-ASCII
  characters of the string literals are the code points the source file holds.
\<close>

subsection \<open>Strings\<close>

text \<open>
  A Python \<^verbatim>\<open>str\<close> is a sequence of Unicode code points, so a string is a list of
  natural numbers (each a code point). Equality, \<^verbatim>\<open>len\<close>, the substring test
  \<^verbatim>\<open>in\<close> and the ordinal comparison \<^verbatim>\<open><\<close> of Python are then equality, \<open>length\<close>,
  \<open>sublist\<close> and the lexicographic order of lists. \<open>S\<close> turns a literal of the source
  into its code points.
\<close>

type_synonym pystr = "nat list"

definition S :: "string \<Rightarrow> pystr" where
  "S cs = map of_char cs"

text \<open>
  \<^verbatim>\<open>str(n)\<close> for an integer, as the f-strings of the source format one: decimal digits,
  with a minus sign for a negative number.
\<close>

fun str_nat :: "nat \<Rightarrow> pystr" where
  "str_nat n = (if n < 10 then [48 + n] else str_nat (n div 10) @ [48 + n mod 10])"

definition str_int :: "int \<Rightarrow> pystr" where
  "str_int i = (if i < 0 then 45 # str_nat (nat (- i)) else str_nat (nat i))"

subsection \<open>The data model\<close>

record resource =
  type :: pystr
  url :: pystr
  language :: pystr
  votes :: int
  content :: "pystr option"

record song =
  artist :: pystr
  song :: pystr
  artist_original :: pystr
  song_original :: pystr
  resources :: "resource list"

subsection \<open>Library functions\<close>

text \<open>
  The builtins \<^verbatim>\<open>str.lower\<close>, \<^verbatim>\<open>str.strip\<close> and \<^verbatim>\<open>int\<close> depend on Unicode tables
  that are not part of the repository. They are parameters of the model: every theorem
  below holds for whatever functions they are. \<open>to_int\<close> returns \<open>None\<close> where
  \<^verbatim>\<open>int(s)\<close> raises \<^verbatim>\<open>ValueError\<close>. A fourth parameter, \<open>dump_error sgs\<close>, is the message
  of the \<^verbatim>\<open>JSONDecodeError\<close> that \<^verbatim>\<open>json.load\<close> raises on the part of the document that
  \<^verbatim>\<open>json.dump\<close> wrote of the collection \<open>sgs\<close> before it failed (see \<open>save\<close>).
\<close>

record pylib =
  lower :: "pystr \<Rightarrow> pystr"
  strip :: "pystr \<Rightarrow> pystr"
  to_int :: "pystr \<Rightarrow> int option"
  dump_error :: "song list \<Rightarrow> pystr"

text \<open>
  An instance of the builtins, to run the model on concrete inputs: it agrees with
  Python on ASCII text (for \<^verbatim>\<open>int\<close>: an optional sign, then at most 4300 decimal
  digits with single underscores between digits allowed, with surrounding white space).
  Its \<open>dump_error\<close> is a placeholder; no statement depends on it.
\<close>

definition ascii_lower :: "pystr \<Rightarrow> pystr" where
  "ascii_lower s = map (\<lambda>c. if 65 \<le> c \<and> c \<le> 90 then c + 32 else c) s"

definition is_space :: "nat \<Rightarrow> bool" where
  "is_space c = (c \<in> set [9, 10, 11, 12, 13, 28, 29, 30, 31, 32])"

definition ascii_strip :: "pystr \<Rightarrow> pystr" where
  "ascii_strip s = rev (dropWhile is_space (rev (dropWhile is_space s)))"

definition digits_value :: "pystr \<Rightarrow> int option" where
  "digits_value ds =
     (if ds \<noteq> [] \<and> list_all (\<lambda>c. (48 \<le> c \<and> c \<le> 57) \<or> c = 95) ds
         \<and> hd ds \<noteq> 95 \<and> last ds \<noteq> 95 \<and> \<not> sublist [95, 95] ds
         \<and> length (filter (\<lambda>c. c \<noteq> 95) ds) \<le> 4300
      then Some (foldl (\<lambda>acc c. 10 * acc + int (c - 48)) 0 (filter (\<lambda>c. c \<noteq> 95) ds))
      else None)"

definition ascii_int :: "pystr \<Rightarrow> int option" where
  "ascii_int s =
     (case ascii_strip s of
        [] \<Rightarrow> None
      | c # cs \<Rightarrow>
          if c = 45 then map_option uminus (digits_value cs)
          else if c = 43 then digits_value cs
          else digits_value (c # cs))"

definition ascii :: pylib where
  "ascii = \<lparr>lower = ascii_lower, strip = ascii_strip, to_int = ascii_int,
            dump_error = (\<lambda>sgs. S ''Expecting value'')\<rparr>"

subsection \<open>Ranking\<close>

text \<open>The comparison function of \<^verbatim>\<open>_sort_resources\<close>, on Python's unbounded integers.\<close>

definition compare :: "resource \<Rightarrow> resource \<Rightarrow> int" where
  "compare r1 r2 =
     (if votes r1 \<noteq> votes r2 then votes r2 - votes r1
      else (if type r1 > type r2 then 1 else 0) - (if type r1 < type r2 then 1 else 0))"

text \<open>
  \<^verbatim>\<open>sorted(xs, key=cmp_to_key(cmp))\<close>: the builtin is a stable sort that compares two
  elements \<open>a\<close>, \<open>b\<close> only by \<^verbatim>\<open>cmp(a, b) < 0\<close>. It is modelled by the stable insertion
  sort on that test: an element is put before the first element that is not smaller
  than it, the elements taken from the right.
\<close>

fun insort_cmp :: "('a \<Rightarrow> 'a \<Rightarrow> int) \<Rightarrow> 'a \<Rightarrow> 'a list \<Rightarrow> 'a list" where
  "insort_cmp cmp x [] = [x]"
| "insort_cmp cmp x (y # ys) =
     (if cmp y x < 0 then y # insort_cmp cmp x ys else x # y # ys)"

definition sorted_cmp :: "('a \<Rightarrow> 'a \<Rightarrow> int) \<Rightarrow> 'a list \<Rightarrow> 'a list" where
  "sorted_cmp cmp xs = foldr (insort_cmp cmp) xs []"

definition sort_resources :: "resource list \<Rightarrow> resource list" where
  "sort_resources rs = sorted_cmp compare rs"

text \<open>The sort key the comparison amounts to: votes descending, then type ascending.\<close>

definition rank_key :: "resource \<Rightarrow> int \<times> pystr" where
  "rank_key r = (- votes r, type r)"

subsection \<open>The database and its environment\<close>

text \<open>
  The value \<^verbatim>\<open>json.load\<close> returns and \<^verbatim>\<open>json.dump\<close> takes: \<^verbatim>\<open>None\<close>, a bool, an
  integer, a float (named by its 64 bits; its value plays no role), a string, a list,
  or a dict with string keys, kept as an association list in insertion order (the keys
  of a dict are distinct; a lookup takes the first entry of a key).
\<close>

datatype json =
    JNull
  | JBool bool
  | JInt int
  | JFloat nat
  | JStr pystr
  | JList "json list"
  | JDict "(pystr \<times> json) list"

text \<open>
  The file \<^verbatim>\<open>db.json\<close>: absent, not decodable as UTF-8, text that is no JSON document
  (with the message of the decoder), or the text of a JSON document, identified with
  the value it parses to. \<^verbatim>\<open>json.dump\<close> followed by \<^verbatim>\<open>json.load\<close> returns the value
  that was written; both belong to Python's library and are taken as given.
\<close>

datatype file_state = Absent | Not_utf8 | Malformed pystr | Doc json

text \<open>
  The exceptions the methods can raise. \<open>Ill_typed\<close> is no exception of Python: the
  dataclasses do not check the values they are given, so a document with, say, a number
  where \<^verbatim>\<open>artist: str\<close> is declared loads into an object that the declared field types,
  and so the records above, exclude. The model stops there with \<open>Ill_typed\<close> and says
  nothing about such a run: a statement about \<^verbatim>\<open>load\<close> on a document that is not fixed
  has the hypothesis that the document is not of this kind (\<open>ill_typed_items\<close> below).
\<close>

datatype py_error =
    JSONDecodeError pystr
  | UnicodeDecodeError
  | UnicodeEncodeError
  | FileNotFoundError
  | KeyError pystr
  | TypeError
  | AttributeError
  | ValueError
  | EOFError
  | Ill_typed

text \<open>
  \<^verbatim>\<open>except ValueError\<close> catches the exceptions of the subclasses of \<^verbatim>\<open>ValueError\<close> too.
\<close>

definition is_ValueError :: "py_error \<Rightarrow> bool" where
  "is_ValueError e =
     (case e of
        ValueError \<Rightarrow> True
      | JSONDecodeError m \<Rightarrow> True
      | UnicodeDecodeError \<Rightarrow> True
      | UnicodeEncodeError \<Rightarrow> True
      | _ \<Rightarrow> False)"

datatype event = Print pystr | Prompt pystr

text \<open>
  \<open>songs\<close> is \<^verbatim>\<open>self.songs\<close>; \<open>stdin\<close> holds the lines still to be read, \<open>stdout\<close> what
  was written so far (a \<^verbatim>\<open>print\<close> call or the prompt of an \<^verbatim>\<open>input\<close> call each);
  \<open>writes\<close> counts how often \<^verbatim>\<open>save\<close> has opened the file for writing. The objects of
  \<^verbatim>\<open>self.songs\<close> are created one by one by \<^verbatim>\<open>load\<close> and \<^verbatim>\<open>add_song\<close> and never
  shared, so a list of values stands for them and the in-place increment of a vote is
  an update at the position of the object.
\<close>

record world =
  songs :: "song list"
  db_file :: file_state
  stdin :: "pystr list"
  stdout :: "event list"
  writes :: nat

type_synonym 'a result = "(py_error \<times> world) + 'a"

definition py_print :: "pystr \<Rightarrow> world \<Rightarrow> world" where
  "py_print s w = w\<lparr>stdout := stdout w @ [Print s]\<rparr>"

text \<open>\<^verbatim>\<open>input(prompt)\<close>: writes the prompt, then reads a line or raises \<^verbatim>\<open>EOFError\<close>.\<close>

definition py_input :: "pystr \<Rightarrow> world \<Rightarrow> (pystr \<times> world) result" where
  "py_input prompt w =
     (let w1 = w\<lparr>stdout := stdout w @ [Prompt prompt]\<rparr>
      in case stdin w of
           [] \<Rightarrow> Inl (EOFError, w1)
         | l # ls \<Rightarrow> Inr (l, w1\<lparr>stdin := ls\<rparr>))"

subsection \<open>save\<close>

text \<open>\<^verbatim>\<open>d[k] = v\<close> on a dict: an existing key keeps its place.\<close>

fun dict_set :: "pystr \<Rightarrow> json \<Rightarrow> (pystr \<times> json) list \<Rightarrow> (pystr \<times> json) list" where
  "dict_set k v [] = [(k, v)]"
| "dict_set k v ((k', v') # kvs) =
     (if k' = k then (k, v) # kvs else (k', v') # dict_set k v kvs)"

text \<open>\<^verbatim>\<open>dataclasses.asdict\<close>: the fields in declaration order, nested dataclasses converted.\<close>

definition asdict_resource :: "resource \<Rightarrow> (pystr \<times> json) list" where
  "asdict_resource r =
     [(S ''type'', JStr (type r)),
      (S ''url'', JStr (url r)),
      (S ''language'', JStr (language r)),
      (S ''votes'', JInt (votes r)),
      (S ''content'', case content r of None \<Rightarrow> JNull | Some c \<Rightarrow> JStr c)]"

definition asdict_song :: "song \<Rightarrow> (pystr \<times> json) list" where
  "asdict_song sg =
     [(S ''artist'', JStr (artist sg)),
      (S ''song'', JStr (song sg)),
      (S ''artist_original'', JStr (artist_original sg)),
      (S ''song_original'', JStr (song_original sg)),
      (S ''resources'', JList (map (JDict \<circ> asdict_resource) (resources sg)))]"

text \<open>The body of the loop of \<^verbatim>\<open>save\<close>: one entry of \<^verbatim>\<open>data\<close>.\<close>

definition song_dict :: "song \<Rightarrow> json" where
  "song_dict sg =
     JDict (dict_set (S ''resources'')
              (JList (map (JDict \<circ> asdict_resource) (resources sg)))
              (asdict_song sg))"

text \<open>
  The file is opened with \<^verbatim>\<open>encoding='utf-8'\<close> and the document written with
  \<^verbatim>\<open>ensure_ascii=False\<close>, so every string is encoded as it is. UTF-8 encodes every code
  point but the surrogates (\<open>D800\<close> to \<open>DFFF\<close>), which a string can hold (\<^verbatim>\<open>json.load\<close>
  reads one from the escape \<^verbatim>\<open>\ud800\<close>). Numbers from \<open>110000\<close> on are no code points
  and stand for no string.
\<close>

definition utf8_encodable :: "pystr \<Rightarrow> bool" where
  "utf8_encodable s = list_all (\<lambda>c. c < 55296 \<or> (57343 < c \<and> c < 1114112)) s"

definition resource_encodable :: "resource \<Rightarrow> bool" where
  "resource_encodable r \<longleftrightarrow>
     utf8_encodable (type r) \<and> utf8_encodable (url r) \<and> utf8_encodable (language r)
     \<and> (case content r of None \<Rightarrow> True | Some c \<Rightarrow> utf8_encodable c)"

definition song_encodable :: "song \<Rightarrow> bool" where
  "song_encodable sg \<longleftrightarrow>
     utf8_encodable (artist sg) \<and> utf8_encodable (song sg)
     \<and> utf8_encodable (artist_original sg) \<and> utf8_encodable (song_original sg)
     \<and> list_all resource_encodable (resources sg)"

text \<open>
  \<^verbatim>\<open>save\<close>: opening the file for writing empties it. \<^verbatim>\<open>json.dump\<close> writes the document
  piece by piece; at the first string that UTF-8 cannot encode the write raises
  \<^verbatim>\<open>UnicodeEncodeError\<close>, and the file is closed with what was written before, a proper
  prefix of the document (at least its opening bracket), which is no JSON document.
\<close>

definition save :: "pylib \<Rightarrow> world \<Rightarrow> world result" where
  "save L w =
     (if list_all song_encodable (songs w)
      then Inr (w\<lparr>db_file := Doc (JList (map song_dict (songs w))), writes := Suc (writes w)\<rparr>)
      else Inl (UnicodeEncodeError,
                w\<lparr>db_file := Malformed (dump_error L (songs w)), writes := Suc (writes w)\<rparr>))"

subsection \<open>load\<close>

text \<open>
  Iterating a loaded value with \<^verbatim>\<open>for\<close>: a list gives its elements, a dict its keys,
  a string its characters; anything else raises \<^verbatim>\<open>TypeError\<close>.
\<close>

definition py_iter :: "json \<Rightarrow> py_error + json list" where
  "py_iter v =
     (case v of
        JList xs \<Rightarrow> Inr xs
      | JDict kvs \<Rightarrow> Inr (map (JStr \<circ> fst) kvs)
      | JStr s \<Rightarrow> Inr (map (\<lambda>c. JStr [c]) s)
      | _ \<Rightarrow> Inl TypeError)"

definition as_str :: "json \<Rightarrow> pystr option" where
  "as_str v = (case v of JStr s \<Rightarrow> Some s | _ \<Rightarrow> None)"

definition as_int :: "json \<Rightarrow> int option" where
  "as_int v = (case v of JInt i \<Rightarrow> Some i | _ \<Rightarrow> None)"

definition as_opt_str :: "json \<Rightarrow> pystr option option" where
  "as_opt_str v = (case v of JNull \<Rightarrow> Some None | JStr s \<Rightarrow> Some (Some s) | _ \<Rightarrow> None)"

text \<open>
  \<^verbatim>\<open>Resource(**res)\<close>: \<^verbatim>\<open>TypeError\<close> unless \<^verbatim>\<open>res\<close> is a dict whose keys are all
  fields of the dataclass and include the three fields without a default;
  \<^verbatim>\<open>votes\<close> defaults to 0 and \<^verbatim>\<open>content\<close> to \<^verbatim>\<open>None\<close>.
\<close>

definition Resource_kwargs :: "json \<Rightarrow> py_error + resource" where
  "Resource_kwargs res =
     (case res of
        JDict kw \<Rightarrow>
          if list_ex (\<lambda>k. k \<notin> set [S ''type'', S ''url'', S ''language'', S ''votes'', S ''content''])
               (map fst kw)
          then Inl TypeError
          else
            (case (map_of kw (S ''type''), map_of kw (S ''url''), map_of kw (S ''language'')) of
               (Some t, Some u, Some l) \<Rightarrow>
                 (case (as_str t, as_str u, as_str l,
                        as_int (case map_of kw (S ''votes'') of None \<Rightarrow> JInt 0 | Some v \<Rightarrow> v),
                        as_opt_str (case map_of kw (S ''content'') of None \<Rightarrow> JNull | Some c \<Rightarrow> c)) of
                    (Some t', Some u', Some l', Some v', Some c') \<Rightarrow>
                      Inr \<lparr>type = t', url = u', language = l', votes = v', content = c'\<rparr>
                  | _ \<Rightarrow> Inl Ill_typed)
             | _ \<Rightarrow> Inl TypeError)
      | _ \<Rightarrow> Inl TypeError)"

text \<open>The list comprehension of \<^verbatim>\<open>load\<close>: the first failing element raises.\<close>

fun load_resources :: "json list \<Rightarrow> py_error + resource list" where
  "load_resources [] = Inr []"
| "load_resources (res # rest) =
     (case Resource_kwargs res of
        Inl e \<Rightarrow> Inl e
      | Inr r \<Rightarrow> (case load_resources rest of Inl e \<Rightarrow> Inl e | Inr rs \<Rightarrow> Inr (r # rs)))"

text \<open>
  The body of the loop of \<^verbatim>\<open>load\<close> up to the construction of the song:
  \<^verbatim>\<open>song_data.get\<close> exists on a dict only (\<^verbatim>\<open>AttributeError\<close> otherwise), the
  resources are built first, then the four subscripts are evaluated in order, each
  raising \<^verbatim>\<open>KeyError\<close> on a missing key.
\<close>

definition load_song :: "json \<Rightarrow> py_error + song" where
  "load_song song_data =
     (case song_data of
        JDict d \<Rightarrow>
          (case py_iter (case map_of d (S ''resources'') of None \<Rightarrow> JList [] | Some v \<Rightarrow> v) of
             Inl e \<Rightarrow> Inl e
           | Inr items \<Rightarrow>
               (case load_resources items of
                  Inl e \<Rightarrow> Inl e
                | Inr rs \<Rightarrow>
                    (case map_of d (S ''artist'') of
                       None \<Rightarrow> Inl (KeyError (S ''artist''))
                     | Some a \<Rightarrow>
                    (case map_of d (S ''song'') of
                       None \<Rightarrow> Inl (KeyError (S ''song''))
                     | Some s \<Rightarrow>
                    (case map_of d (S ''artist_original'') of
                       None \<Rightarrow> Inl (KeyError (S ''artist_original''))
                     | Some ao \<Rightarrow>
                    (case map_of d (S ''song_original'') of
                       None \<Rightarrow> Inl (KeyError (S ''song_original''))
                     | Some so \<Rightarrow>
                    (case (as_str a, as_str s, as_str ao, as_str so) of
                       (Some a', Some s', Some ao', Some so') \<Rightarrow>
                         Inr \<lparr>artist = a', song = s', artist_original = ao',
                              song_original = so', resources = rs\<rparr>
                     | _ \<Rightarrow> Inl Ill_typed)))))))
      | _ \<Rightarrow> Inl AttributeError)"

text \<open>The loop of \<^verbatim>\<open>load\<close>: each song is appended to \<^verbatim>\<open>self.songs\<close> as it is built.\<close>

fun load_loop :: "json list \<Rightarrow> world \<Rightarrow> world result" where
  "load_loop [] w = Inr w"
| "load_loop (song_data # rest) w =
     (case load_song song_data of
        Inl e \<Rightarrow> Inl (e, w)
      | Inr sg \<Rightarrow> load_loop rest (w\<lparr>songs := songs w @ [sg]\<rparr>))"

text \<open>
  Opening the file and \<^verbatim>\<open>json.load\<close> on it (\<^verbatim>\<open>load\<close> opens the file only after it
  has found that it exists).
\<close>

definition json_load :: "file_state \<Rightarrow> py_error + json" where
  "json_load f =
     (case f of
        Doc v \<Rightarrow> Inr v
      | Malformed m \<Rightarrow> Inl (JSONDecodeError m)
      | Not_utf8 \<Rightarrow> Inl UnicodeDecodeError
      | Absent \<Rightarrow> Inl FileNotFoundError)"

text \<open>The body of the \<^verbatim>\<open>try\<close> statement of \<^verbatim>\<open>load\<close>.\<close>

definition load_try :: "world \<Rightarrow> world result" where
  "load_try w =
     (case json_load (db_file w) of
        Inl e \<Rightarrow> Inl (e, w)
      | Inr data \<Rightarrow>
          (let w1 = w\<lparr>songs := []\<rparr>
           in case py_iter data of
                Inl e \<Rightarrow> Inl (e, w1)
              | Inr items \<Rightarrow> load_loop items w1))"

text \<open>
  \<^verbatim>\<open>load\<close>: the handler catches \<^verbatim>\<open>JSONDecodeError\<close> and \<^verbatim>\<open>KeyError\<close> only, prints
  the exception (a \<^verbatim>\<open>KeyError\<close> prints as its key in quotes) and empties the
  collection; every other exception leaves the method. The call of \<^verbatim>\<open>save\<close> for an
  absent file stands outside the \<^verbatim>\<open>try\<close> statement.
\<close>

definition load :: "pylib \<Rightarrow> world \<Rightarrow> world result" where
  "load L w =
     (if db_file w = Absent then save L w
      else
        (case load_try w of
           Inr w' \<Rightarrow> Inr w'
         | Inl (e, w') \<Rightarrow>
             (case e of
                JSONDecodeError m \<Rightarrow>
                  Inr ((py_print (S ''Error loading database: '' @ m) w')\<lparr>songs := []\<rparr>)
              | KeyError k \<Rightarrow>
                  Inr ((py_print (S ''Error loading database: '' @ [39] @ k @ [39]) w')\<lparr>songs := []\<rparr>)
              | _ \<Rightarrow> Inl (e, w'))))"

text \<open>\<^verbatim>\<open>SongDatabase()\<close>: the constructor.\<close>

definition init :: "pylib \<Rightarrow> world \<Rightarrow> world result" where
  "init L w = load L (w\<lparr>songs := []\<rparr>)"

subsection \<open>search\<close>

text \<open>
  The loop of \<^verbatim>\<open>search\<close>, with \<^verbatim>\<open>results\<close> as accumulator; \<^verbatim>\<open>a in b\<close> on strings is
  \<open>sublist a b\<close>. The method reads \<^verbatim>\<open>self.songs\<close> and assigns nothing, so it is a
  function of the world that returns the result list only.
\<close>

fun search_loop :: "pylib \<Rightarrow> pystr \<Rightarrow> song list \<Rightarrow> song list \<Rightarrow> song list" where
  "search_loop L query [] results = results"
| "search_loop L query (sg # rest) results =
     search_loop L query rest
       (if sublist query (lower L (artist sg))
           \<or> sublist query (lower L (song sg))
           \<or> sublist query (lower L (artist_original sg))
           \<or> sublist query (lower L (song_original sg))
        then results @ [sg] else results)"

definition search :: "pylib \<Rightarrow> world \<Rightarrow> pystr \<Rightarrow> song list" where
  "search L w query = search_loop L (lower L query) (songs w) []"

subsection \<open>add_song\<close>

text \<open>
  The \<^verbatim>\<open>while True\<close> loop of \<^verbatim>\<open>add_song\<close>. Every round reads at least one line, and
  standard input is a finite list of lines, so the loop ends: by the user declining,
  or by \<^verbatim>\<open>EOFError\<close>.
\<close>

function read_resources :: "pylib \<Rightarrow> resource list \<Rightarrow> world \<Rightarrow> (resource list \<times> world) result" where
  "read_resources L rs w =
     (case py_input (10 # S ''Add a resource? (y/n): '') w of
        Inl x \<Rightarrow> Inl x
      | Inr (yn, w1) \<Rightarrow>
          if lower L yn \<noteq> S ''y'' then Inr (rs, w1)
          else
            (case py_input (S ''Type (e.g., vid.subs, vid.lyrics): '')
                    (py_print (10 # S ''--- New Resource ---'') w1) of
               Inl x \<Rightarrow> Inl x
             | Inr (t, w2) \<Rightarrow>
            (case py_input (S ''URL: '') w2 of
               Inl x \<Rightarrow> Inl x
             | Inr (u, w3) \<Rightarrow>
            (case py_input (S ''Language code (en/es/ja/etc) [en]: '') w3 of
               Inl x \<Rightarrow> Inl x
             | Inr (l, w4) \<Rightarrow>
            (case py_input (S ''Content/notes (optional, press Enter to skip): '') w4 of
               Inl x \<Rightarrow> Inl x
             | Inr (c, w5) \<Rightarrow>
                 read_resources L
                   (rs @ [\<lparr>type = strip L t,
                           url = strip L u,
                           language = (if strip L l = [] then S ''en'' else strip L l),
                           votes = 0,
                           content = (if strip L c = [] then None else Some (strip L c))\<rparr>])
                   (py_print (S ''Resource added.'') w5))))))"
  by pat_completeness auto
termination
proof (relation "measure (\<lambda>(L, rs, w). length (stdin w))")
  show "wf (measure (\<lambda>(L, rs, w). length (stdin w)))"
    by simp
next
  fix L :: pylib and rs :: "resource list" and w :: world
  fix x2 yn w1 x2a t w2 x2b u w3 x2c l w4 x2d c w5
  assume "py_input (10 # S ''Add a resource? (y/n): '') w = Inr x2" "(yn, w1) = x2"
    and "py_input (S ''Type (e.g., vid.subs, vid.lyrics): '')
           (py_print (10 # S ''--- New Resource ---'') w1) = Inr x2a" "(t, w2) = x2a"
    and "py_input (S ''URL: '') w2 = Inr x2b" "(u, w3) = x2b"
    and "py_input (S ''Language code (en/es/ja/etc) [en]: '') w3 = Inr x2c" "(l, w4) = x2c"
    and "py_input (S ''Content/notes (optional, press Enter to skip): '') w4 = Inr x2d"
      "(c, w5) = x2d"
  then show "((L, rs @ [\<lparr>type = strip L t, url = strip L u,
                  language = if strip L l = [] then S ''en'' else strip L l, votes = 0,
                  content = if strip L c = [] then None else Some (strip L c)\<rparr>],
               py_print (S ''Resource added.'') w5), L, rs, w)
             \<in> measure (\<lambda>(L, rs, w). length (stdin w))"
    by (auto simp: py_input_def py_print_def Let_def split: list.splits)
qed

declare read_resources.simps [simp del]

text \<open>\<^verbatim>\<open>add_song\<close>; \<^verbatim>\<open>x.strip() or y\<close> is \<open>y\<close> when the stripped string is empty.\<close>

definition add_song :: "pylib \<Rightarrow> world \<Rightarrow> world result" where
  "add_song L w =
     (case py_input (S ''Artist name: '') (py_print (10 # S ''=== Add New Song ==='') w) of
        Inl x \<Rightarrow> Inl x
      | Inr (a, w1) \<Rightarrow>
          if strip L a = [] then Inr (py_print (S ''Artist name is required.'') w1)
          else
            (case py_input (S ''Original artist name ['' @ strip L a @ S '']: '') w1 of
               Inl x \<Rightarrow> Inl x
             | Inr (ao, w2) \<Rightarrow>
            (case py_input (S ''Song name: '') w2 of
               Inl x \<Rightarrow> Inl x
             | Inr (sn, w3) \<Rightarrow>
                 if strip L sn = [] then Inr (py_print (S ''Song name is required.'') w3)
                 else
                   (case py_input (S ''Original song name ['' @ strip L sn @ S '']: '') w3 of
                      Inl x \<Rightarrow> Inl x
                    | Inr (so, w4) \<Rightarrow>
                   (case read_resources L [] w4 of
                      Inl x \<Rightarrow> Inl x
                    | Inr (rs, w5) \<Rightarrow>
                        (case save L (w5\<lparr>songs := songs w5 @
                                  [\<lparr>artist = strip L a,
                                    song = strip L sn,
                                    artist_original = (if strip L ao = [] then strip L a else strip L ao),
                                    song_original = (if strip L so = [] then strip L sn else strip L so),
                                    resources = rs\<rparr>]\<rparr>) of
                           Inl x \<Rightarrow> Inl x
                         | Inr w6 \<Rightarrow>
                             Inr (py_print
                                    ([10, 226, 339, 8220] @ S '' Song '' @ [39] @ strip L sn @ [39]
                                       @ S '' by '' @ [39] @ strip L a @ [39]
                                       @ S '' has been added.'')
                                    w6)))))))"

subsection \<open>vote_on_resource\<close>

text \<open>The listing of the search results: \<^verbatim>\<open>for i, song in enumerate(results, 1)\<close>.\<close>

fun print_results :: "nat \<Rightarrow> song list \<Rightarrow> world \<Rightarrow> world" where
  "print_results i [] w = w"
| "print_results i (sg # rest) w =
     print_results (Suc i) rest
       (py_print (str_int (int i) @ S ''. '' @ artist sg @ S '' - '' @ song sg) w)"

definition vote_str :: "resource \<Rightarrow> pystr" where
  "vote_str r = (if votes r > 0 then [226, 8211, 178] @ S '' '' @ str_int (votes r) else [])"

text \<open>The listing of the ranked resources: \<^verbatim>\<open>for j, resource in enumerate(sorted_resources, 1)\<close>.\<close>

fun print_resources :: "nat \<Rightarrow> resource list \<Rightarrow> world \<Rightarrow> world" where
  "print_resources j [] w = w"
| "print_resources j (r # rest) w =
     print_resources (Suc j) rest
       (py_print (S ''  '' @ str_int (int j) @ S ''. '' @ type r @ S '' ('' @ language r
                    @ S '') '' @ vote_str r) w)"

text \<open>
  The innermost loop, \<^verbatim>\<open>for k, resource in enumerate(song.resources)\<close>: the index \<open>k\<close> of
  the first resource with the type and url of the selected one, where the body
  increments, saves and returns; \<open>None\<close> when the loop ends without a match.
\<close>

fun find_resource :: "resource \<Rightarrow> nat \<Rightarrow> resource list \<Rightarrow> nat option" where
  "find_resource sel k [] = None"
| "find_resource sel k (r # rest) =
     (if type r = type sel \<and> url r = url sel then Some k
      else find_resource sel (Suc k) rest)"

text \<open>
  What the body of the loop over \<^verbatim>\<open>self.songs\<close> does for a song that matches: it
  returns from the method (normally or by an exception), or, when the innermost loop
  found nothing, goes on with the next song.
\<close>

datatype flow = Return "world result" | Continue world

definition vote_on_song :: "pylib \<Rightarrow> nat \<Rightarrow> song \<Rightarrow> world \<Rightarrow> flow" where
  "vote_on_song L i sg w =
     (if resources sg = [] then Return (Inr (py_print (S ''This song has no resources.'') w))
      else
        (let sorted_resources = sort_resources (resources sg)
         in case py_input (S ''Select resource to upvote: '')
                   (print_resources 1 sorted_resources
                      (py_print (10 # S ''Resources for '' @ [39] @ song sg @ [39] @ S '':'') w)) of
              Inl x \<Rightarrow> Return (Inl x)
            | Inr (line, w1) \<Rightarrow>
                (case to_int L line of
                   None \<Rightarrow> Return (Inl (ValueError, w1))
                 | Some n \<Rightarrow>
                     (let resource_choice = n - 1
                      in if \<not> (0 \<le> resource_choice \<and> resource_choice < int (length sorted_resources))
                         then Return (Inr (py_print (S ''Invalid selection.'') w1))
                         else
                           (case find_resource (sorted_resources ! nat resource_choice) 0
                                   (resources sg) of
                              None \<Rightarrow> Continue w1
                            | Some k \<Rightarrow>
                                (let r = (resources sg ! k)\<lparr>votes := votes (resources sg ! k) + 1\<rparr>
                                 in case save L (w1\<lparr>songs := (songs w1)
                                            [i := sg\<lparr>resources := (resources sg)[k := r]\<rparr>]\<rparr>) of
                                      Inl x \<Rightarrow> Return (Inl x)
                                    | Inr w2 \<Rightarrow>
                                        Return (Inr
                                          (py_print
                                             ([10, 226, 339, 8220] @ S '' Vote added! Now has ''
                                                @ str_int (votes r) @ S '' votes.'')
                                             w2))))))))"

text \<open>
  The loop \<^verbatim>\<open>for i, song in enumerate(self.songs)\<close> over the songs from index \<open>i\<close> on;
  when it ends the method returns.
\<close>

fun vote_song_loop :: "pylib \<Rightarrow> song \<Rightarrow> nat \<Rightarrow> song list \<Rightarrow> world \<Rightarrow> world result" where
  "vote_song_loop L selected_song i [] w = Inr w"
| "vote_song_loop L selected_song i (sg # rest) w =
     (if artist sg = artist selected_song \<and> song sg = song selected_song
      then (case vote_on_song L i sg w of
              Return r \<Rightarrow> r
            | Continue w' \<Rightarrow> vote_song_loop L selected_song (Suc i) rest w')
      else vote_song_loop L selected_song (Suc i) rest w)"

text \<open>The body of the \<^verbatim>\<open>try\<close> statement.\<close>

definition vote_try :: "pylib \<Rightarrow> song list \<Rightarrow> world \<Rightarrow> world result" where
  "vote_try L results w =
     (case py_input (10 # S ''Select song number: '') w of
        Inl x \<Rightarrow> Inl x
      | Inr (line, w1) \<Rightarrow>
          (case to_int L line of
             None \<Rightarrow> Inl (ValueError, w1)
           | Some n \<Rightarrow>
               (let song_choice = n - 1
                in if \<not> (0 \<le> song_choice \<and> song_choice < int (length results))
                   then Inr (py_print (S ''Invalid selection.'') w1)
                   else vote_song_loop L (results ! nat song_choice) 0 (songs w1) w1)))"

text \<open>
  The handler of the \<^verbatim>\<open>try\<close> statement: a \<^verbatim>\<open>ValueError\<close> is caught and reported, the
  method then returns; any other exception leaves the method. The \<^verbatim>\<open>UnicodeEncodeError\<close>
  of a \<^verbatim>\<open>save\<close> that fails inside the \<^verbatim>\<open>try\<close> statement is a \<^verbatim>\<open>ValueError\<close>.
\<close>

definition except_ValueError :: "world result \<Rightarrow> world result" where
  "except_ValueError r =
     (case r of
        Inl (e, w') \<Rightarrow>
          if is_ValueError e then Inr (py_print (S ''Please enter a valid number.'') w')
          else Inl (e, w')
      | Inr w' \<Rightarrow> Inr w')"

definition vote_on_resource :: "pylib \<Rightarrow> world \<Rightarrow> world result" where
  "vote_on_resource L w =
     (if songs w = [] then Inr (py_print (S ''Database is empty.'') w)
      else
        (case py_input (S ''Search for song to vote on: '') w of
           Inl x \<Rightarrow> Inl x
         | Inr (line, w1) \<Rightarrow>
             (let query = lower L (strip L line)
              in if query = [] then Inr w1
                 else
                   (let results = search L w1 query
                    in if results = [] then Inr (py_print (S ''No matches found.'') w1)
                       else
                         except_ValueError
                           (vote_try L results
                              (print_results 1 results
                                 (py_print (10 # S ''Found '' @ str_int (int (length results))
                                              @ S '' result(s):'') w1)))))))"

subsection \<open>Notions used in the statements\<close>

text \<open>
  These are not part of the program. \<open>same_db w w'\<close>: the collection, the file and the
  number of writes are the same in both worlds (only standard input and output may
  differ). \<open>first_index P xs i\<close>: \<open>i\<close> is the first position of \<open>xs\<close> whose element
  satisfies \<open>P\<close>. \<open>upvote sgs i k\<close>: the collection \<open>sgs\<close> with the vote counter of
  resource \<open>k\<close> of song \<open>i\<close> incremented by one and nothing else changed.
  \<open>vote_result L w i k\<close>: what the loop body of \<^verbatim>\<open>vote_on_resource\<close> ends with after that
  increment was made in \<open>w\<close>: the collection saved and the vote reported, or the
  exception \<^verbatim>\<open>save\<close> raised. \<open>voted L w i k\<close>: the world in which the method then returns.
\<close>

definition same_db :: "world \<Rightarrow> world \<Rightarrow> bool" where
  "same_db w w' \<longleftrightarrow> songs w' = songs w \<and> db_file w' = db_file w \<and> writes w' = writes w"

definition first_index :: "('a \<Rightarrow> bool) \<Rightarrow> 'a list \<Rightarrow> nat \<Rightarrow> bool" where
  "first_index P xs i \<longleftrightarrow> i < length xs \<and> P (xs ! i) \<and> list_all (\<lambda>x. \<not> P x) (take i xs)"

definition upvote :: "song list \<Rightarrow> nat \<Rightarrow> nat \<Rightarrow> song list" where
  "upvote sgs i k =
     sgs[i := (sgs ! i)\<lparr>resources := (resources (sgs ! i))
            [k := (resources (sgs ! i) ! k)\<lparr>votes := votes (resources (sgs ! i) ! k) + 1\<rparr>]\<rparr>]"

definition vote_result :: "pylib \<Rightarrow> world \<Rightarrow> nat \<Rightarrow> nat \<Rightarrow> world result" where
  "vote_result L w1 i k =
     (case save L (w1\<lparr>songs := upvote (songs w1) i k\<rparr>) of
        Inl x \<Rightarrow> Inl x
      | Inr w2 \<Rightarrow>
          Inr (py_print ([10, 226, 339, 8220] @ S '' Vote added! Now has ''
                           @ str_int (votes (resources (songs w1 ! i) ! k) + 1) @ S '' votes.'') w2))"

definition same_resource :: "resource \<Rightarrow> resource \<Rightarrow> bool" where
  "same_resource sel r \<longleftrightarrow> type r = type sel \<and> url r = url sel"

definition same_song :: "song \<Rightarrow> song \<Rightarrow> bool" where
  "same_song sel sg \<longleftrightarrow> artist sg = artist sel \<and> song sg = song sel"

text \<open>
  \<open>voted_on L i k w w'\<close>: a run of \<^verbatim>\<open>vote_on_resource\<close> that returns and has called
  \<^verbatim>\<open>save\<close> leads from \<open>w\<close> (whatever is on standard input and output by then) to \<open>w'\<close>,
  and it changed the counter of resource \<open>k\<close> of song \<open>i\<close>.
\<close>

definition voted_on :: "pylib \<Rightarrow> nat \<Rightarrow> nat \<Rightarrow> world \<Rightarrow> world \<Rightarrow> bool" where
  "voted_on L i k w w' \<longleftrightarrow>
     (\<exists>w0. same_db w w0 \<and> vote_on_resource L w0 = Inr w' \<and> writes w' \<noteq> writes w0)
     \<and> i < length (songs w) \<and> k < length (resources (songs w ! i))
     \<and> votes (resources (songs w' ! i) ! k) \<noteq> votes (resources (songs w ! i) ! k)"

text \<open>\<open>result_world r\<close>: the world in which a run ended, normally or by an exception.\<close>

definition result_world :: "world result \<Rightarrow> world" where
  "result_world r = (case r of Inl (e, w) \<Rightarrow> w | Inr w \<Rightarrow> w)"

definition voted :: "pylib \<Rightarrow> world \<Rightarrow> nat \<Rightarrow> nat \<Rightarrow> world" where
  "voted L w1 i k = result_world (except_ValueError (vote_result L w1 i k))"

text \<open>
  \<open>resource_display sg w\<close>: the world \<open>w\<close> after the header and the ranked resources of
  the song \<open>sg\<close> were printed.
\<close>

definition resource_display :: "song \<Rightarrow> world \<Rightarrow> world" where
  "resource_display sg w =
     print_resources 1 (sort_resources (resources sg))
       (py_print (10 # S ''Resources for '' @ [39] @ song sg @ [39] @ S '':'') w)"

text \<open>\<open>votes_nonneg sgs\<close>: no resource of a song of \<open>sgs\<close> has a negative vote counter.\<close>

definition votes_nonneg :: "song list \<Rightarrow> bool" where
  "votes_nonneg sgs \<longleftrightarrow> list_all (\<lambda>sg. list_all (\<lambda>r. 0 \<le> votes r) (resources sg)) sgs"

text \<open>
  \<open>loaded_songs items\<close>: the songs the loop of \<^verbatim>\<open>load\<close> appends for the entries
  \<open>items\<close> of a document, up to the first entry that raises.
\<close>

fun loaded_songs :: "json list \<Rightarrow> song list" where
  "loaded_songs [] = []"
| "loaded_songs (d # ds) =
     (case load_song d of Inl e \<Rightarrow> [] | Inr sg \<Rightarrow> sg # loaded_songs ds)"

text \<open>
  \<open>ill_typed_items items\<close>: the loop of \<^verbatim>\<open>load\<close> meets, before anything raises, a
  field value that is not of the declared type. On such a document the model stops
  with \<open>Ill_typed\<close> where the program goes on; on every other document the model does
  what the program does.
\<close>

fun ill_typed_items :: "json list \<Rightarrow> bool" where
  "ill_typed_items [] = False"
| "ill_typed_items (d # ds) =
     (case load_song d of Inl e \<Rightarrow> e = Ill_typed | Inr sg \<Rightarrow> ill_typed_items ds)"

text \<open>
  \<open>start_file_ok f\<close>: a condition on the file the program is started on. \<^verbatim>\<open>load\<close> checks
  neither the types nor the signs of the counters it reads; the condition says that in
  what \<^verbatim>\<open>load\<close> reads of the file no field value is of another type than declared and no
  vote counter is negative. An absent file and a file that does not parse satisfy it.
\<close>

definition start_file_ok :: "file_state \<Rightarrow> bool" where
  "start_file_ok f =
     (case f of
        Doc d \<Rightarrow>
          (case py_iter d of
             Inl e \<Rightarrow> True
           | Inr items \<Rightarrow> \<not> ill_typed_items items \<and> votes_nonneg (loaded_songs items))
      | _ \<Rightarrow> True)"

text \<open>
  The worlds a run of the program can be in between two method calls, or when an
  exception leaves a method: the constructor runs on a start file as above; the menu
  loop and the read-only methods change standard input and output only; \<^verbatim>\<open>add_song\<close>
  and \<^verbatim>\<open>vote_on_resource\<close> run; a new process is started on the file the last one left.
\<close>

inductive reachable :: "pylib \<Rightarrow> world \<Rightarrow> bool" for L :: pylib where
  start: "start_file_ok (db_file w0) \<Longrightarrow> reachable L (result_world (init L w0))"
| io: "reachable L w \<Longrightarrow> reachable L (w\<lparr>stdin := inp, stdout := out\<rparr>)"
| add: "reachable L w \<Longrightarrow> reachable L (result_world (add_song L w))"
| vote: "reachable L w \<Longrightarrow> reachable L (result_world (vote_on_resource L w))"
| restart: "reachable L w \<Longrightarrow> reachable L (result_world (init L w))"

text \<open>
  \<open>db_inv w\<close>: the collection holds no negative counter and the file is one to start on.
\<close>

definition db_inv :: "world \<Rightarrow> bool" where
  "db_inv w \<longleftrightarrow> votes_nonneg (songs w) \<and> start_file_ok (db_file w)"

subsection \<open>Example data\<close>

definition song_A :: song where
  "song_A = \<lparr>artist = S ''A'', song = S ''S1'', artist_original = S ''A'',
             song_original = S ''S1'',
             resources =
               [\<lparr>type = S ''vid.subs'', url = S ''u1'', language = S ''en'', votes = 2, content = None\<rparr>,
                \<lparr>type = S ''vid.lyrics'', url = S ''u2'', language = S ''en'', votes = 2, content = None\<rparr>,
                \<lparr>type = S ''vid.sync'', url = S ''u3'', language = S ''en'', votes = 5, content = None\<rparr>]\<rparr>"

definition song_B :: song where
  "song_B = \<lparr>artist = S ''Beta'', song = S ''Tune'', artist_original = S ''Beta'',
             song_original = S ''Tune'', resources = []\<rparr>"

definition world0 :: "song list \<Rightarrow> pystr list \<Rightarrow> world" where
  "world0 sgs inp = \<lparr>songs = sgs, db_file = Absent, stdin = inp, stdout = [], writes = 0\<rparr>"

definition world_A :: world where
  "world_A = world0 [song_A, song_B] [S ''s1'', S ''1'', S ''1'']"

definition song_D :: song where
  "song_D = \<lparr>artist = S ''A'', song = S ''S1'', artist_original = S ''Alpha'',
             song_original = S ''Song one'', resources = []\<rparr>"

definition song_R :: song where
  "song_R = \<lparr>artist = S ''Rho'', song = S ''Remix'', artist_original = S ''Rho'',
             song_original = S ''Remix'',
             resources =
               [\<lparr>type = S ''vid.subs'', url = S ''u'', language = S ''en'', votes = 0, content = None\<rparr>,
                \<lparr>type = S ''vid.subs'', url = S ''u'', language = S ''es'', votes = 5, content = None\<rparr>]\<rparr>"

definition world_D :: world where
  "world_D = world0 [song_D, song_A] [S ''s1'', S ''2'']"

definition world_R :: world where
  "world_R = world0 [song_R] [S ''remix'', S ''1'', S ''1'']"

definition song_N :: song where
  "song_N = \<lparr>artist = S ''Ana'', song = S ''Song'', artist_original = S ''Ana'',
             song_original = S ''Song'',
             resources = [\<lparr>type = S ''vid.subs'', url = S ''u'', language = S ''en'',
                           votes = 0, content = None\<rparr>]\<rparr>"

definition world_N :: world where
  "world_N = world0 [song_B]
     [S ''Ana'', [], S ''Song'', [], S ''y'', S ''vid.subs'', S ''u'', [], [], S ''n'']"

text \<open>
  A song with non-ASCII text in every string field, and a song whose artist is a lone
  surrogate.
\<close>

definition song_E :: song where
  "song_E = \<lparr>artist = [26085, 26412], song = [233, 116, 233], artist_original = [26085, 26412],
             song_original = [128512],
             resources = [\<lparr>type = [118, 105, 100, 46, 1089], url = [117, 8364], language = [26085],
                           votes = 3, content = Some [241]\<rparr>]\<rparr>"

definition world_E :: world where
  "world_E = world0 [song_E] []"

definition song_U :: song where
  "song_U = \<lparr>artist = [55296], song = S ''S1'', artist_original = [55296],
             song_original = S ''S1'', resources = []\<rparr>"

definition world_U :: world where
  "world_U = world0 [song_U] []"

definition world_S :: world where
  "world_S = \<lparr>songs = [], db_file = Doc (JList (map song_dict [song_A, song_B])),
              stdin = [], stdout = [], writes = 0\<rparr>"

definition world_V :: world where
  "world_V = result_world (vote_on_resource ascii
     ((result_world (init ascii world_S))\<lparr>stdin := [S ''s1'', S ''1'', S ''1''], stdout := []\<rparr>))"

text \<open>
  A document with one song whose only resource has no \<^verbatim>\<open>type\<close>, and one with one song
  that has no \<^verbatim>\<open>artist\<close>.
\<close>

definition doc_no_type :: json where
  "doc_no_type =
     JList [JDict [(S ''artist'', JStr (S ''A'')), (S ''song'', JStr (S ''S1'')),
                   (S ''artist_original'', JStr (S ''A'')), (S ''song_original'', JStr (S ''S1'')),
                   (S ''resources'',
                      JList [JDict [(S ''url'', JStr (S ''u1'')), (S ''language'', JStr (S ''en''))]])]]"

definition doc_no_artist :: json where
  "doc_no_artist =
     JList [JDict [(S ''song'', JStr (S ''S1'')),
                   (S ''artist_original'', JStr (S ''A'')), (S ''song_original'', JStr (S ''S1'')),
                   (S ''resources'', JList [])]]"

text \<open>A document with one song whose only resource has a negative vote counter.\<close>

definition doc_negative :: json where
  "doc_negative =
     JList [JDict [(S ''artist'', JStr (S ''A'')), (S ''song'', JStr (S ''S1'')),
                   (S ''artist_original'', JStr (S ''A'')), (S ''song_original'', JStr (S ''S1'')),
                   (S ''resources'',
                      JList [JDict [(S ''type'', JStr (S ''vid.subs'')), (S ''url'', JStr (S ''u1'')),
                                    (S ''language'', JStr (S ''en'')), (S ''votes'', JInt (- 3))]])]]"

definition song_negative :: song where
  "song_negative = \<lparr>artist = S ''A'', song = S ''S1'', artist_original = S ''A'',
                    song_original = S ''S1'',
                    resources = [\<lparr>type = S ''vid.subs'', url = S ''u1'', language = S ''en'',
                                  votes = - 3, content = None\<rparr>]\<rparr>"

definition world_file :: "file_state \<Rightarrow> world" where
  "world_file f = \<lparr>songs = [song_B], db_file = f, stdin = [], stdout = [], writes = 0\<rparr>"

section \<open>Ranking is a stable sort\<close>

lemma compare_less_iff: "compare y x < 0 \<longleftrightarrow> rank_key y < rank_key x"
  by (auto simp: compare_def rank_key_def less_prod_def)

lemma insort_cmp_compare: "insort_cmp compare x ys = insort_key rank_key x ys"
  by (induction ys) (auto simp: compare_less_iff)

lemma sort_resources_sort_key: "sort_resources rs = sort_key rank_key rs"
  unfolding sort_resources_def sorted_cmp_def sort_key_def
  by (induction rs) (simp_all add: insort_cmp_compare)

lemma rank_key_le_iff:
  "rank_key a \<le> rank_key b \<longleftrightarrow> votes b < votes a \<or> (votes a = votes b \<and> type a \<le> type b)"
  by (auto simp: rank_key_def less_eq_prod_def)

lemma rank_key_eq_iff: "rank_key r = (- v, t) \<longleftrightarrow> votes r = v \<and> type r = t"
  by (auto simp: rank_key_def)

lemma sort_resources_sorted:
  "sorted_wrt (\<lambda>a b. votes b < votes a \<or> (votes a = votes b \<and> type a \<le> type b))
     (sort_resources rs)"
proof -
  have "sorted (map rank_key (sort_key rank_key rs))"
    by (rule sorted_sort_key)
  then have "sorted_wrt (\<lambda>a b. rank_key a \<le> rank_key b) (sort_key rank_key rs)"
    by (simp add: sorted_map)
  then show ?thesis
    by (simp add: sort_resources_sort_key rank_key_le_iff)
qed

lemma sort_resources_stable:
  "filter (\<lambda>r. votes r = v \<and> type r = t) (sort_resources rs) =
   filter (\<lambda>r. votes r = v \<and> type r = t) rs"
proof -
  have "filter (\<lambda>r. rank_key r = (- v, t)) (sort_key rank_key rs) =
        filter (\<lambda>r. rank_key r = (- v, t)) rs"
    by (rule sort_key_stable)
  then show ?thesis
    by (simp add: sort_resources_sort_key rank_key_eq_iff)
qed

lemma sort_resources_idem: "sort_resources (sort_resources rs) = sort_resources rs"
  unfolding sort_resources_sort_key
  by (rule sort_key_id_if_sorted) (rule sorted_sort_key)

lemma mset_sort_resources: "mset (sort_resources rs) = mset rs"
  by (simp add: sort_resources_sort_key)

lemma set_sort_resources: "set (sort_resources rs) = set rs"
  by (simp add: sort_resources_sort_key)

lemma length_sort_resources: "length (sort_resources rs) = length rs"
  by (simp add: sort_resources_sort_key)

text \<open>
  Claim C1. For every list of resources, \<open>sort_resources\<close> returns a permutation of
  its input (the same multiset), ordered by votes descending with ties broken by type
  ascending, stable (resources with the same votes and type keep their input order),
  and sorting twice gives the same list as sorting once. The function returns a list
  and has no access to the list it was given, so the input is not changed. For the
  resources vid.subs (2 votes), vid.lyrics (2 votes), vid.sync (5 votes) the order is
  vid.sync, vid.lyrics, vid.subs.
\<close>

theorem sort_resources_spec:
  "mset (sort_resources rs) = mset rs
   \<and> sorted_wrt (\<lambda>a b. votes b < votes a \<or> (votes a = votes b \<and> type a \<le> type b))
       (sort_resources rs)
   \<and> (\<forall>v t. filter (\<lambda>r. votes r = v \<and> type r = t) (sort_resources rs) =
             filter (\<lambda>r. votes r = v \<and> type r = t) rs)
   \<and> sort_resources (sort_resources rs) = sort_resources rs
   \<and> map type (sort_resources
        [\<lparr>type = S ''vid.subs'', url = u1, language = l1, votes = 2, content = c1\<rparr>,
         \<lparr>type = S ''vid.lyrics'', url = u2, language = l2, votes = 2, content = c2\<rparr>,
         \<lparr>type = S ''vid.sync'', url = u3, language = l3, votes = 5, content = c3\<rparr>])
       = [S ''vid.sync'', S ''vid.lyrics'', S ''vid.subs'']"
proof -
  have "map type (sort_resources
        [\<lparr>type = S ''vid.subs'', url = u1, language = l1, votes = 2, content = c1\<rparr>,
         \<lparr>type = S ''vid.lyrics'', url = u2, language = l2, votes = 2, content = c2\<rparr>,
         \<lparr>type = S ''vid.sync'', url = u3, language = l3, votes = 5, content = c3\<rparr>])
       = [S ''vid.sync'', S ''vid.lyrics'', S ''vid.subs'']"
    by (simp add: sort_resources_def sorted_cmp_def compare_def S_def)
  then show ?thesis
    using mset_sort_resources sort_resources_sorted sort_resources_stable sort_resources_idem
    by blast
qed

section \<open>Persistence\<close>

lemma Resource_kwargs_asdict: "Resource_kwargs (JDict (asdict_resource r)) = Inr r"
  by (cases "content r")
     (simp_all add: Resource_kwargs_def asdict_resource_def S_def as_str_def as_int_def
        as_opt_str_def)

lemma load_resources_asdict: "load_resources (map (JDict \<circ> asdict_resource) rs) = Inr rs"
  by (induction rs) (simp_all add: Resource_kwargs_asdict)

lemma load_song_song_dict: "load_song (song_dict sg) = Inr sg"
  by (simp add: load_song_def song_dict_def asdict_song_def S_def py_iter_def
      load_resources_asdict as_str_def)

lemma load_loop_song_dict: "load_loop (map song_dict ss) w = Inr (w\<lparr>songs := songs w @ ss\<rparr>)"
  by (induction ss arbitrary: w) (simp_all add: load_song_song_dict)

lemma save_encodable:
  "list_all song_encodable (songs w) \<Longrightarrow>
     save L w = Inr (w\<lparr>db_file := Doc (JList (map song_dict (songs w))), writes := Suc (writes w)\<rparr>)"
  by (simp add: save_def)

lemma load_saved:
  "db_file w = Doc (JList (map song_dict sgs)) \<Longrightarrow> load L w = Inr (w\<lparr>songs := sgs\<rparr>)"
  by (simp add: load_def load_try_def json_load_def py_iter_def load_loop_song_dict)

lemma utf8_encodable_S: "utf8_encodable (S cs)"
proof -
  have "of_char c < (256 :: nat)" for c :: char
    by (simp add: of_char_def)
  then have "of_char c < (55296 :: nat)" for c :: char
    by (rule less_trans) simp
  then show ?thesis
    by (simp add: utf8_encodable_def S_def list_all_iff)
qed

text \<open>
  Claim C2, amended. \<^verbatim>\<open>save\<close> followed by \<^verbatim>\<open>load\<close> gives back the collection that was
  saved for every collection whose strings UTF-8 can encode, that is, which hold no
  surrogate code point; every other non-ASCII character is admitted. Then \<^verbatim>\<open>save\<close>
  returns, leaves the collection as it is, and \<^verbatim>\<open>load\<close> on the file it wrote ends with
  that collection (the same songs and resources with the same field values in the same
  order), whatever the collection was when \<^verbatim>\<open>load\<close> started (for one, the empty
  collection of a new process).
\<close>

theorem save_load_roundtrip:
  "list_all song_encodable (songs w) \<Longrightarrow>
     (\<exists>w1. save L w = Inr w1 \<and> songs w1 = songs w
          \<and> load L (w1\<lparr>songs := ss\<rparr>) = Inr w1)"
  by (simp add: save_encodable load_saved)

theorem save_load_roundtrip_witness:
  "list_all song_encodable (songs world_E)
   \<and> (\<exists>w1. save ascii world_E = Inr w1 \<and> songs w1 = [song_E]
          \<and> load ascii (w1\<lparr>songs := []\<rparr>) = Inr w1)"
proof -
  have e: "list_all song_encodable (songs world_E)"
    by (simp add: world_E_def world0_def song_E_def song_encodable_def resource_encodable_def
        utf8_encodable_S) (simp add: utf8_encodable_def)
  from save_load_roundtrip [OF e, of ascii "[]"] e show ?thesis
    by (simp add: world_E_def world0_def)
qed

text \<open>
  The claim as it stands, for every collection, fails on a string with a surrogate:
  for the collection of the one song \<open>song_U\<close>, whose artist is the code point \<open>D800\<close>,
  \<^verbatim>\<open>save\<close> raises \<^verbatim>\<open>UnicodeEncodeError\<close> and leaves a file that is no JSON document,
  and the constructor of the next process ends with the empty collection.
\<close>

theorem save_surrogate_fails:
  "songs world_U = [song_U]
   \<and> save ascii world_U
       = Inl (UnicodeEncodeError,
              world_U\<lparr>db_file := Malformed (dump_error ascii [song_U]), writes := 1\<rparr>)
   \<and> songs (result_world (init ascii (result_world (save ascii world_U)))) = []"
  by (simp add: save_def world_U_def world0_def song_U_def song_encodable_def
      utf8_encodable_def result_world_def init_def load_def load_try_def json_load_def
      py_print_def)

section \<open>Search\<close>

lemma search_loop_filter:
  "search_loop L q sgs acc =
     acc @ filter (\<lambda>sg. sublist q (lower L (artist sg)) \<or> sublist q (lower L (song sg))
                    \<or> sublist q (lower L (artist_original sg))
                    \<or> sublist q (lower L (song_original sg))) sgs"
  by (induction sgs arbitrary: acc) simp_all

lemma search_subset: "set (search L w q) \<subseteq> set (songs w)"
  by (auto simp: search_def search_loop_filter)

lemma search_same_db: "same_db w w' \<Longrightarrow> search L w' q = search L w q"
  by (simp add: search_def same_db_def)

lemma search_empty: "lower L [] = [] \<Longrightarrow> search L w [] = songs w"
  by (simp add: search_def search_loop_filter)

lemma search_filter:
  "search L w query =
     filter (\<lambda>sg. (\<exists>ps ss. lower L (artist sg) = ps @ lower L query @ ss)
                 \<or> (\<exists>ps ss. lower L (song sg) = ps @ lower L query @ ss)
                 \<or> (\<exists>ps ss. lower L (artist_original sg) = ps @ lower L query @ ss)
                 \<or> (\<exists>ps ss. lower L (song_original sg) = ps @ lower L query @ ss))
       (songs w)"
  by (simp add: search_def search_loop_filter sublist_def)

text \<open>
  Claim C3. For every query and every collection, \<^verbatim>\<open>search\<close> returns exactly the songs
  for which the lower-cased query is a substring of the lower-cased artist, song,
  artist_original or song_original, in the order of the collection (the result is the
  collection filtered by that test). The empty query returns every song, given that
  \<^verbatim>\<open>"".lower()\<close> is the empty string. \<^verbatim>\<open>search\<close> returns a list and no world: the
  collection is not changed.
\<close>

theorem search_spec:
  "search L w query =
     filter (\<lambda>sg. (\<exists>ps ss. lower L (artist sg) = ps @ lower L query @ ss)
                 \<or> (\<exists>ps ss. lower L (song sg) = ps @ lower L query @ ss)
                 \<or> (\<exists>ps ss. lower L (artist_original sg) = ps @ lower L query @ ss)
                 \<or> (\<exists>ps ss. lower L (song_original sg) = ps @ lower L query @ ss))
       (songs w)
   \<and> (lower L [] = [] \<longrightarrow> search L w [] = songs w)"
  using search_filter search_empty by blast

theorem search_spec_witness:
  "lower ascii [] = [] \<and> search ascii (world0 [song_A, song_B] []) [] = [song_A, song_B]
   \<and> search ascii (world0 [song_A, song_B] []) (S ''s1'') = [song_A]
   \<and> search ascii (world0 [song_A, song_B] []) (S ''S1'') = [song_A]"
proof -
  have e: "lower ascii [] = []"
    by (simp add: ascii_def ascii_lower_def)
  have "search ascii (world0 [song_A, song_B] []) (S ''s1'') = [song_A]"
    by (simp add: search_def ascii_def ascii_lower_def world0_def song_A_def song_B_def S_def sublist_code(3))
  moreover have "search ascii (world0 [song_A, song_B] []) (S ''S1'') = [song_A]"
    by (simp add: search_def ascii_def ascii_lower_def world0_def song_A_def song_B_def S_def sublist_code(3))
  moreover have "search ascii (world0 [song_A, song_B] []) [] = songs (world0 [song_A, song_B] [])"
    using e search_spec [of ascii "world0 [song_A, song_B] []" "[]"] by blast
  ultimately show ?thesis
    using e by (simp add: world0_def)
qed

section \<open>Adding a song\<close>

lemma add_song_blank_artist:
  assumes "stdin w = a # rest" "strip L a = []"
  shows "add_song L w =
           Inr (w\<lparr>stdin := rest,
                  stdout := stdout w @ [Print (10 # S ''=== Add New Song ===''),
                                        Prompt (S ''Artist name: ''),
                                        Print (S ''Artist name is required.'')]\<rparr>)"
  using assms by (simp add: add_song_def py_input_def py_print_def)

lemma add_song_blank_song:
  assumes "stdin w = a # ao # sn # rest" "strip L a \<noteq> []" "strip L sn = []"
  shows "add_song L w =
           Inr (w\<lparr>stdin := rest,
                  stdout := stdout w @ [Print (10 # S ''=== Add New Song ===''),
                                        Prompt (S ''Artist name: ''),
                                        Prompt (S ''Original artist name ['' @ strip L a @ S '']: ''),
                                        Prompt (S ''Song name: ''),
                                        Print (S ''Song name is required.'')]\<rparr>)"
  using assms by (simp add: add_song_def py_input_def py_print_def)

lemma strip_blank: "strip ascii (S ''  '') = []" "strip ascii (S ''Ana'') = S ''Ana''" "strip ascii [] = []" "S ''Ana'' \<noteq> []"
  by (simp_all add: ascii_def ascii_strip_def is_space_def S_def)

text \<open>
  Claim C7. When the artist name read by \<^verbatim>\<open>add_song\<close> is empty after stripping, or
  the artist name is not but the song name is, the method prints the message that the
  name is required and returns with the collection, the file and the number of writes
  as they were: no song is appended and \<^verbatim>\<open>save\<close> is not called.
\<close>

theorem add_song_blank:
  "(stdin w = a # rest \<and> strip L a = [] \<longrightarrow>
      (\<exists>w'. add_song L w = Inr w' \<and> songs w' = songs w \<and> db_file w' = db_file w
            \<and> writes w' = writes w
            \<and> stdout w' = stdout w @ [Print (10 # S ''=== Add New Song ===''),
                                        Prompt (S ''Artist name: ''),
                                        Print (S ''Artist name is required.'')]))
   \<and> (stdin w = a # ao # sn # rest \<and> strip L a \<noteq> [] \<and> strip L sn = [] \<longrightarrow>
      (\<exists>w'. add_song L w = Inr w' \<and> songs w' = songs w \<and> db_file w' = db_file w
            \<and> writes w' = writes w
            \<and> stdout w' = stdout w @ [Print (10 # S ''=== Add New Song ===''),
                                        Prompt (S ''Artist name: ''),
                                        Prompt (S ''Original artist name ['' @ strip L a @ S '']: ''),
                                        Prompt (S ''Song name: ''),
                                        Print (S ''Song name is required.'')]))"
  by (auto simp: add_song_blank_artist add_song_blank_song)

theorem add_song_blank_witness:
  "(\<exists>w'. add_song ascii (world0 [song_B] [S ''  '', S ''x'']) = Inr w'
         \<and> songs w' = [song_B] \<and> db_file w' = Absent \<and> writes w' = 0
         \<and> stdout w' = [Print (10 # S ''=== Add New Song ===''),
                         Prompt (S ''Artist name: ''),
                         Print (S ''Artist name is required.'')])
   \<and> (\<exists>w'. add_song ascii (world0 [song_B] [S ''Ana'', [], [], S ''x'']) = Inr w'
         \<and> songs w' = [song_B] \<and> db_file w' = Absent \<and> writes w' = 0
         \<and> stdout w' = [Print (10 # S ''=== Add New Song ===''),
                         Prompt (S ''Artist name: ''),
                         Prompt (S ''Original artist name ['' @ S ''Ana'' @ S '']: ''),
                         Prompt (S ''Song name: ''),
                         Print (S ''Song name is required.'')])"
  using add_song_blank [where w = "world0 [song_B] [S ''  '', S ''x'']" and a = "S ''  ''"
                           and rest = "[S ''x'']" and L = ascii]
        add_song_blank [where w = "world0 [song_B] [S ''Ana'', [], [], S ''x'']" and a = "S ''Ana''"
                           and L = ascii and ao = "[]" and sn = "[]" and rest = "[S ''x'']"]
  by (simp add: world0_def strip_blank)

section \<open>Voting\<close>

lemma first_index_iff:
  "first_index P xs i \<longleftrightarrow> i < length xs \<and> P (xs ! i) \<and> (\<forall>j<i. \<not> P (xs ! j))"
  by (auto simp: first_index_def list_all_length)

lemma is_ValueError_simps [simp]:
  "is_ValueError ValueError" "is_ValueError UnicodeEncodeError" "\<not> is_ValueError EOFError"
  by (simp_all add: is_ValueError_def)

lemma same_db_refl [simp]: "same_db w w"
  by (simp add: same_db_def)

lemma same_db_trans: "same_db a b \<Longrightarrow> same_db b c \<Longrightarrow> same_db a c"
  by (simp add: same_db_def)

lemma same_db_print [simp]: "same_db w (py_print s w')  \<longleftrightarrow> same_db w w'"
  by (simp add: same_db_def py_print_def)

lemma py_input_Inr: "py_input p w = Inr (l, w') \<Longrightarrow>
    same_db w w' \<and> stdin w = l # stdin w' \<and> stdout w' = stdout w @ [Prompt p]"
  by (auto simp: py_input_def same_db_def Let_def split: list.splits)

lemma py_input_Inl: "py_input p w = Inl (e, w') \<Longrightarrow> same_db w w' \<and> e = EOFError"
  by (auto simp: py_input_def same_db_def Let_def split: list.splits)

lemma same_db_print_results [simp]: "same_db w (print_results i rs w') \<longleftrightarrow> same_db w w'"
  by (induction rs arbitrary: i w') simp_all

lemma same_db_print_resources [simp]: "same_db w (print_resources i rs w') \<longleftrightarrow> same_db w w'"
  by (induction rs arbitrary: i w') simp_all

lemma same_db_print_left [simp]: "same_db (py_print s w) w' \<longleftrightarrow> same_db w w'"
  by (simp add: same_db_def py_print_def)

lemma same_db_print_results_left [simp]: "same_db (print_results i rs w) w' \<longleftrightarrow> same_db w w'"
  by (induction rs arbitrary: i w) simp_all

lemma same_db_print_resources_left [simp]:
  "same_db (print_resources i rs w) w' \<longleftrightarrow> same_db w w'"
  by (induction rs arbitrary: i w) simp_all

lemma find_resource_Some:
  "find_resource sel k0 rs = Some k \<Longrightarrow>
     k0 \<le> k \<and> first_index (\<lambda>r. type r = type sel \<and> url r = url sel) rs (k - k0)"
proof (induction rs arbitrary: k0)
  case Nil
  then show ?case by simp
next
  case (Cons r rs)
  show ?case
  proof (cases "type r = type sel \<and> url r = url sel")
    case True
    with Cons.prems show ?thesis by (auto simp: first_index_iff)
  next
    case False
    with Cons.prems have f: "find_resource sel (Suc k0) rs = Some k" by simp
    from Cons.IH [OF f] have le: "Suc k0 \<le> k"
      and fi: "first_index (\<lambda>r. type r = type sel \<and> url r = url sel) rs (k - Suc k0)"
      by simp_all
    from le have eq: "k - k0 = Suc (k - Suc k0)" by simp
    from fi False show ?thesis
      unfolding eq first_index_iff using le
      by (auto simp: nth_Cons' less_Suc_eq_0_disj)
  qed
qed

lemma find_resource_None:
  "find_resource sel k0 rs = None \<Longrightarrow> r \<in> set rs \<Longrightarrow> \<not> (type r = type sel \<and> url r = url sel)"
  by (induction rs arbitrary: k0) (auto split: if_splits)

lemma find_resource_member: "sel \<in> set rs \<Longrightarrow> \<exists>k. find_resource sel k0 rs = Some k"
  using find_resource_None [of sel k0 rs sel] by (cases "find_resource sel k0 rs") auto

lemma sorted_nth_member:
  "m < length rs \<Longrightarrow> sort_resources rs ! m \<in> set rs"
  using nth_mem [of m "sort_resources rs"]
  by (simp add: length_sort_resources set_sort_resources)

lemma except_vote_result: "except_ValueError (vote_result L w1 i k) = Inr (voted L w1 i k)"
  by (simp add: voted_def vote_result_def save_def except_ValueError_def is_ValueError_def
      result_world_def)

lemma vote_on_song_no_resources:
  "resources sg = [] \<Longrightarrow>
     vote_on_song L i sg w = Return (Inr (py_print (S ''This song has no resources.'') w))"
  by (simp add: vote_on_song_def)

lemma vote_on_song_outcome:
  assumes sg: "sg = songs w ! i"
  shows "(\<exists>w'. vote_on_song L i sg w = Return (Inr w') \<and> same_db w w')
       \<or> (\<exists>e w'. vote_on_song L i sg w = Return (Inl (e, w')) \<and> same_db w w'
              \<and> (e = EOFError \<or> e = ValueError))
       \<or> (\<exists>k w1 line n. same_db w w1
              \<and> resources sg \<noteq> []
              \<and> py_input (S ''Select resource to upvote: '')
                    (print_resources 1 (sort_resources (resources sg))
                      (py_print (10 # S ''Resources for '' @ [39] @ song sg @ [39] @ S '':'') w))
                  = Inr (line, w1)
              \<and> to_int L line = Some n \<and> 1 \<le> n \<and> n \<le> int (length (resources sg))
              \<and> first_index (same_resource (sort_resources (resources sg) ! nat (n - 1)))
                    (resources sg) k
              \<and> vote_on_song L i sg w = Return (vote_result L w1 i k))"
proof (cases "resources sg = []")
  case True
  then show ?thesis by (simp add: vote_on_song_no_resources)
next
  case ne: False
  let ?w0 = "print_resources 1 (sort_resources (resources sg))
               (py_print (10 # S ''Resources for '' @ [39] @ song sg @ [39] @ S '':'') w)"
  have db0: "same_db w ?w0" by simp
  show ?thesis
  proof (cases "py_input (S ''Select resource to upvote: '') ?w0")
    case (Inl x)
    obtain e w' where x: "x = (e, w')" by (cases x)
    from Inl x py_input_Inl [of _ ?w0 e w'] have "same_db w w'" "e = EOFError"
      by auto
    moreover from Inl x ne have "vote_on_song L i sg w = Return (Inl (e, w'))"
      by (simp add: vote_on_song_def)
    ultimately show ?thesis by blast
  next
    case (Inr y)
    obtain line w1 where y: "y = (line, w1)" by (cases y)
    from Inr y py_input_Inr [of _ ?w0 line w1] have db1: "same_db w w1"
      by auto
    show ?thesis
    proof (cases "to_int L line")
      case None
      with Inr y ne have "vote_on_song L i sg w = Return (Inl (ValueError, w1))"
        by (simp add: vote_on_song_def)
      with db1 show ?thesis by blast
    next
      case (Some n)
      show ?thesis
      proof (cases "1 \<le> n \<and> n \<le> int (length (resources sg))")
        case False
        with Inr y ne Some
        have "vote_on_song L i sg w = Return (Inr (py_print (S ''Invalid selection.'') w1))"
          by (auto simp: vote_on_song_def length_sort_resources)
        moreover from db1 have "same_db w (py_print (S ''Invalid selection.'') w1)" by simp
        ultimately show ?thesis by blast
      next
        case True
        then have lt: "nat (n - 1) < length (resources sg)" by auto
        from sorted_nth_member [OF lt] find_resource_member
        obtain k where k: "find_resource (sort_resources (resources sg) ! nat (n - 1)) 0
                             (resources sg) = Some k"
          by blast
        from find_resource_Some [OF k]
        have fi: "first_index (same_resource (sort_resources (resources sg) ! nat (n - 1)))
                    (resources sg) k"
          by (simp add: same_resource_def [abs_def])
        from db1 sg have "songs w1 = songs w" by (simp add: same_db_def)
        with Inr y ne Some True k sg
        have "vote_on_song L i sg w = Return (vote_result L w1 i k)"
          by (simp add: vote_on_song_def length_sort_resources vote_result_def upvote_def
        split: sum.splits)
        with db1 ne Inr y Some True fi show ?thesis by blast
      qed
    qed
  qed
qed

lemma vote_song_loop_first:
  assumes "first_index (same_song sel) ss i"
    and "vote_on_song L (i0 + i) (ss ! i) w = Return r"
  shows "vote_song_loop L sel i0 ss w = r"
  using assms
proof (induction ss arbitrary: i i0)
  case Nil
  then show ?case by (simp add: first_index_iff)
next
  case (Cons sg ss)
  show ?case
  proof (cases i)
    case 0
    with Cons.prems show ?thesis
      by (simp add: first_index_iff same_song_def)
  next
    case (Suc m)
    with Cons.prems have nm: "\<not> same_song sel sg"
      by (auto simp: first_index_iff)
    from Suc Cons.prems have fi: "first_index (same_song sel) ss m"
      by (auto simp: first_index_iff)
    from Suc Cons.prems have "vote_on_song L (Suc i0 + m) (ss ! m) w = Return r"
      by simp
    from Cons.IH [OF fi this] nm show ?thesis
      by (auto simp: same_song_def)
  qed
qed

lemma first_index_exists: "x \<in> set xs \<Longrightarrow> P x \<Longrightarrow> \<exists>i. first_index P xs i"
proof (induction xs)
  case Nil
  then show ?case by simp
next
  case (Cons y ys)
  show ?case
  proof (cases "P y")
    case True
    then have "first_index P (y # ys) 0" by (simp add: first_index_iff)
    then show ?thesis ..
  next
    case False
    with Cons obtain i where "first_index P ys i" by auto
    with False have "first_index P (y # ys) (Suc i)"
      by (auto simp: first_index_iff less_Suc_eq_0_disj)
    then show ?thesis ..
  qed
qed

lemma same_song_refl: "same_song sel sel"
  by (simp add: same_song_def)

lemma stdin_print_results [simp]: "stdin (print_results j rs v) = stdin v"
  by (induction rs arbitrary: j v) (simp_all add: py_print_def)

lemma stdin_print_resources [simp]: "stdin (print_resources j rs v) = stdin v"
  by (induction rs arbitrary: j v) (simp_all add: py_print_def)

text \<open>The run of the method up to the prompt for the song number.\<close>

lemma vote_on_resource_results:
  assumes ne: "songs w \<noteq> []"
    and inp: "stdin w = q # ins"
    and q: "lower L (strip L q) \<noteq> []"
    and rne: "search L w (lower L (strip L q)) \<noteq> []"
  shows "\<exists>w1. same_db w w1 \<and> stdin w1 = ins
           \<and> vote_on_resource L w
               = except_ValueError (vote_try L (search L w (lower L (strip L q))) w1)"
proof -
  let ?query = "lower L (strip L q)"
  let ?results = "search L w ?query"
  define w0 where "w0 = w\<lparr>stdout := stdout w @ [Prompt (S ''Search for song to vote on: '')],
                          stdin := ins\<rparr>"
  define w1 where "w1 = print_results 1 ?results
                    (py_print (10 # S ''Found '' @ str_int (int (length ?results))
                                 @ S '' result(s):'') w0)"
  have in1: "py_input (S ''Search for song to vote on: '') w = Inr (q, w0)"
    using inp by (simp add: py_input_def w0_def)
  have db0: "same_db w w0" by (simp add: w0_def same_db_def)
  have s1: "search L w0 ?query = ?results" by (rule search_same_db [OF db0])
  have db1: "same_db w w1" using db0 by (simp add: w1_def)
  have st1: "stdin w1 = ins" by (simp add: w1_def w0_def py_print_def)
  have "vote_on_resource L w = except_ValueError (vote_try L ?results w1)"
    using ne in1 q s1 rne by (simp add: vote_on_resource_def w1_def Let_def)
  with db1 st1 show ?thesis by blast
qed

lemma vote_try_not_a_number:
  assumes "stdin w1 = c # rest" "to_int L c = None"
  shows "\<exists>w2. same_db w1 w2 \<and> stdin w2 = rest
           \<and> except_ValueError (vote_try L results w1)
               = Inr (py_print (S ''Please enter a valid number.'') w2)"
proof -
  define w2 where "w2 = w1\<lparr>stdout := stdout w1 @ [Prompt (10 # S ''Select song number: '')],
                           stdin := rest\<rparr>"
  from assms have "vote_try L results w1 = Inl (ValueError, w2)"
    by (simp add: vote_try_def py_input_def w2_def)
  moreover have "same_db w1 w2" "stdin w2 = rest"
    by (simp_all add: w2_def same_db_def)
  ultimately show ?thesis by (auto simp: except_ValueError_def)
qed

lemma vote_try_out_of_range:
  assumes "stdin w1 = c # rest" "to_int L c = Some n" "\<not> (1 \<le> n \<and> n \<le> int (length results))"
  shows "\<exists>w2. same_db w1 w2 \<and> stdin w2 = rest
           \<and> except_ValueError (vote_try L results w1)
               = Inr (py_print (S ''Invalid selection.'') w2)"
proof -
  define w2 where "w2 = w1\<lparr>stdout := stdout w1 @ [Prompt (10 # S ''Select song number: '')],
                           stdin := rest\<rparr>"
  from assms have "vote_try L results w1 = Inr (py_print (S ''Invalid selection.'') w2)"
    by (auto simp: vote_try_def py_input_def w2_def)
  moreover have "same_db w1 w2" "stdin w2 = rest"
    by (simp_all add: w2_def same_db_def)
  ultimately show ?thesis by (auto simp: except_ValueError_def)
qed

lemma vote_try_eof:
  assumes "stdin w1 = []"
  shows "\<exists>w2. same_db w1 w2 \<and> except_ValueError (vote_try L results w1) = Inl (EOFError, w2)"
proof -
  define w2 where "w2 = w1\<lparr>stdout := stdout w1 @ [Prompt (10 # S ''Select song number: '')]\<rparr>"
  from assms have "vote_try L results w1 = Inl (EOFError, w2)"
    by (simp add: vote_try_def py_input_def w2_def)
  moreover have "same_db w1 w2"
    by (simp_all add: w2_def same_db_def)
  ultimately show ?thesis by (auto simp: except_ValueError_def)
qed

lemma vote_try_selected:
  assumes inp: "stdin w1 = c # rest"
    and n: "to_int L c = Some n" "1 \<le> n" "n \<le> int (length results)"
    and sub: "set results \<subseteq> set (songs w1)"
  shows "\<exists>i w2 r. first_index (same_song (results ! nat (n - 1))) (songs w1) i
           \<and> same_db w1 w2 \<and> stdin w2 = rest
           \<and> vote_on_song L i (songs w1 ! i) w2 = Return r
           \<and> vote_try L results w1 = r"
proof -
  let ?sel = "results ! nat (n - 1)"
  define w2 where "w2 = w1\<lparr>stdout := stdout w1 @ [Prompt (10 # S ''Select song number: '')],
                           stdin := rest\<rparr>"
  have in2: "py_input (10 # S ''Select song number: '') w1 = Inr (c, w2)"
    using inp by (simp add: py_input_def w2_def)
  have db2: "same_db w1 w2" by (simp add: w2_def same_db_def)
  have st2: "stdin w2 = rest" by (simp add: w2_def)
  from db2 have sw2: "songs w2 = songs w1" by (simp add: same_db_def)
  from n have lt: "nat (n - 1) < length results" by auto
  from lt have "?sel \<in> set results" by (rule nth_mem)
  with sub have "?sel \<in> set (songs w1)" by blast
  from first_index_exists [OF this, of "same_song ?sel"] same_song_refl
  obtain i where i: "first_index (same_song ?sel) (songs w1) i" by blast
  obtain r where r: "vote_on_song L i (songs w1 ! i) w2 = Return r"
    using vote_on_song_outcome [of "songs w1 ! i" w2 i L] sw2 by auto
  from i r have loop: "vote_song_loop L ?sel 0 (songs w2) w2 = r"
    using vote_song_loop_first [of ?sel "songs w1" i L 0 w2 r] sw2 by simp
  have "vote_try L results w1 = r"
    using in2 n loop by (simp add: vote_try_def)
  with i db2 st2 r show ?thesis by blast
qed

text \<open>The run of the method up to a valid choice of a song.\<close>

lemma vote_on_resource_selected:
  assumes ne: "songs w \<noteq> []"
    and inp: "stdin w = q # c # rest"
    and q: "lower L (strip L q) \<noteq> []"
    and n: "to_int L c = Some n" "1 \<le> n" "n \<le> int (length (search L w (lower L (strip L q))))"
  shows "\<exists>i w2 r. first_index (same_song (search L w (lower L (strip L q)) ! nat (n - 1))) (songs w) i
           \<and> same_db w w2 \<and> stdin w2 = rest
           \<and> vote_on_song L i (songs w ! i) w2 = Return r
           \<and> vote_on_resource L w = except_ValueError r"
proof -
  let ?results = "search L w (lower L (strip L q))"
  from n have rne: "?results \<noteq> []" by auto
  from vote_on_resource_results [OF ne inp q rne]
  obtain w1 where w1: "same_db w w1" "stdin w1 = c # rest"
    "vote_on_resource L w = except_ValueError (vote_try L ?results w1)"
    by blast
  from w1(1) have sw: "songs w1 = songs w" by (simp add: same_db_def)
  with search_subset [of L w] have sub: "set ?results \<subseteq> set (songs w1)" by simp
  from vote_try_selected [OF w1(2) n sub]
  obtain i w2 r where "first_index (same_song (?results ! nat (n - 1))) (songs w1) i"
    "same_db w1 w2" "stdin w2 = rest" "vote_on_song L i (songs w1 ! i) w2 = Return r"
    "vote_try L ?results w1 = r"
    by blast
  note sel = this
  from w1(1) sel(2) have "same_db w w2" by (rule same_db_trans)
  moreover from sel(1) sw
  have "first_index (same_song (?results ! nat (n - 1))) (songs w) i" by simp
  moreover from sel(4) sw have "vote_on_song L i (songs w ! i) w2 = Return r" by simp
  moreover from w1(3) sel(5) have "vote_on_resource L w = except_ValueError r" by simp
  ultimately show ?thesis using sel(3) by blast
qed

lemma vote_on_resource_outcome:
  "(\<exists>w'. vote_on_resource L w = Inr w' \<and> same_db w w')
   \<or> (\<exists>w'. vote_on_resource L w = Inl (EOFError, w') \<and> same_db w w')
   \<or> (\<exists>i k w1. same_db w w1 \<and> i < length (songs w) \<and> k < length (resources (songs w ! i))
         \<and> vote_on_resource L w = Inr (voted L w1 i k))"
proof (cases "songs w = []")
  case True
  then show ?thesis by (simp add: vote_on_resource_def)
next
  case ne: False
  show ?thesis
  proof (cases "stdin w")
    case Nil
    with ne have "vote_on_resource L w
        = Inl (EOFError, w\<lparr>stdout := stdout w @ [Prompt (S ''Search for song to vote on: '')]\<rparr>)"
      by (simp add: vote_on_resource_def py_input_def)
    then show ?thesis by (simp add: same_db_def)
  next
    case (Cons q ins)
    show ?thesis
    proof (cases "lower L (strip L q) = []")
      case True
      with ne Cons show ?thesis
        by (simp add: vote_on_resource_def py_input_def same_db_def)
    next
      case q: False
      show ?thesis
      proof (cases "search L w (lower L (strip L q)) = []")
        case True
        then have "search L (w\<lparr>stdout := stdout w @ [Prompt (S ''Search for song to vote on: '')],
                       stdin := ins\<rparr>) (lower L (strip L q)) = []"
          by (simp add: search_def)
        with ne Cons q show ?thesis
          by (simp add: vote_on_resource_def py_input_def same_db_def py_print_def)
      next
        case rne: False
        let ?results = "search L w (lower L (strip L q))"
        from vote_on_resource_results [OF ne Cons q rne]
        obtain w1 where w1: "same_db w w1" "stdin w1 = ins"
          "vote_on_resource L w = except_ValueError (vote_try L ?results w1)"
          by blast
        from w1(1) have sw: "songs w1 = songs w" by (simp add: same_db_def)
        show ?thesis
        proof (cases ins)
          case Nil
          from vote_try_eof [OF Nil [unfolded w1(2) [symmetric]], of L ?results]
          obtain w2 where w2: "same_db w1 w2"
            "except_ValueError (vote_try L ?results w1) = Inl (EOFError, w2)"
            by blast
          from w1(1) w2(1) have "same_db w w2" by (rule same_db_trans)
          with w1(3) w2(2) show ?thesis by simp
        next
          case (Cons c rest)
          with w1 have in1: "stdin w1 = c # rest" by simp
          show ?thesis
          proof (cases "to_int L c")
            case None
            from vote_try_not_a_number [OF in1 None, of ?results]
            obtain w2 where w2: "same_db w1 w2"
              "except_ValueError (vote_try L ?results w1)
                 = Inr (py_print (S ''Please enter a valid number.'') w2)"
              by blast
            from w1(1) w2(1) have "same_db w w2" by (rule same_db_trans)
            with w1(3) w2(2) show ?thesis by simp
          next
            case (Some n)
            show ?thesis
            proof (cases "1 \<le> n \<and> n \<le> int (length ?results)")
              case False
              from vote_try_out_of_range [OF in1 Some False]
              obtain w2 where w2: "same_db w1 w2"
                "except_ValueError (vote_try L ?results w1)
                   = Inr (py_print (S ''Invalid selection.'') w2)"
                by blast
              from w1(1) w2(1) have "same_db w w2" by (rule same_db_trans)
              with w1(3) w2(2) show ?thesis by simp
            next
              case True
              from search_subset [of L w] sw have sub: "set ?results \<subseteq> set (songs w1)" by simp
              from vote_try_selected [OF in1 Some _ _ sub] True
              obtain i w2 r where i: "first_index (same_song (?results ! nat (n - 1))) (songs w1) i"
                and db2: "same_db w1 w2"
                and r: "vote_on_song L i (songs w1 ! i) w2 = Return r" "vote_try L ?results w1 = r"
                by blast
              from w1(1) db2 have db: "same_db w w2" by (rule same_db_trans)
              then have sw2: "songs w2 = songs w" by (simp add: same_db_def)
              from i sw have il: "i < length (songs w)" by (simp add: first_index_iff)
              have eq: "vote_on_resource L w = except_ValueError r"
                using w1(3) r(2) by simp
              from vote_on_song_outcome [of "songs w1 ! i" w2 i L] sw sw2
              consider (ok) w' where "r = Inr w'" "same_db w2 w'"
                | (err) e w' where "r = Inl (e, w')" "same_db w2 w'" "e = EOFError \<or> e = ValueError"
                | (vote) k w3 where "same_db w2 w3" "k < length (resources (songs w ! i))"
                    "r = vote_result L w3 i k"
                using r(1) by (auto simp: first_index_iff)
              then show ?thesis
              proof cases
                case ok
                with eq db show ?thesis
                  by (auto simp: except_ValueError_def intro: same_db_trans)
              next
                case err
                with eq db show ?thesis
                  by (auto simp: except_ValueError_def is_ValueError_def intro: same_db_trans)
              next
                case vote
                note vote(2)
                moreover from db vote(1) have "same_db w w3" by (rule same_db_trans)
                moreover from eq vote(3) have "vote_on_resource L w = Inr (voted L w3 i k)"
                  by (simp add: except_vote_result)
                ultimately show ?thesis using il by blast
              qed
            qed
          qed
        qed
      qed
    qed
  qed
qed

lemma first_index_unique: "first_index P xs i \<Longrightarrow> first_index P xs j \<Longrightarrow> i = j"
  unfolding first_index_iff by (meson linorder_neqE_nat)

lemma same_db_voted:
  "same_db w w1 \<Longrightarrow>
     songs (voted L w1 i k) = upvote (songs w) i k
     \<and> writes (voted L w1 i k) = Suc (writes w)
     \<and> stdin (voted L w1 i k) = stdin w1"
  by (simp add: voted_def vote_result_def same_db_def save_def except_ValueError_def
      is_ValueError_def result_world_def py_print_def)

lemma db_file_voted:
  "db_file (voted L w1 i k) =
     (if list_all song_encodable (upvote (songs w1) i k)
      then Doc (JList (map song_dict (upvote (songs w1) i k)))
      else Malformed (dump_error L (upvote (songs w1) i k)))"
  by (simp add: voted_def vote_result_def save_def except_ValueError_def
      is_ValueError_def result_world_def py_print_def)

lemma stdout_voted:
  "stdout (voted L w1 i k) = stdout w1 @
     [Print (if list_all song_encodable (upvote (songs w1) i k)
             then [10, 226, 339, 8220] @ S '' Vote added! Now has ''
                    @ str_int (votes (resources (songs w1 ! i) ! k) + 1) @ S '' votes.''
             else S ''Please enter a valid number.'')]"
  by (simp add: voted_def vote_result_def save_def except_ValueError_def
      is_ValueError_def result_world_def py_print_def)

lemma resource_prompt:
  assumes inp: "stdin w = rc # rest"
  shows "\<exists>w1. same_db w w1 \<and> stdin w1 = rest \<and>
           py_input (S ''Select resource to upvote: '')
             (print_resources 1 rs (py_print s w)) = Inr (rc, w1)"
proof -
  let ?w0 = "print_resources 1 rs (py_print s w)"
  define w1 where "w1 = ?w0\<lparr>stdout := stdout ?w0 @ [Prompt (S ''Select resource to upvote: '')],
                           stdin := rest\<rparr>"
  have "stdin ?w0 = rc # rest" using inp by (simp add: py_print_def)
  then have in1: "py_input (S ''Select resource to upvote: '') ?w0 = Inr (rc, w1)"
    by (simp add: py_input_def w1_def)
  from py_input_Inr [OF in1] have "same_db w w1" by simp
  moreover have "stdin w1 = rest" by (simp add: w1_def)
  ultimately show ?thesis using in1 by blast
qed

lemma vote_on_song_not_a_number:
  assumes "resources sg \<noteq> []" "stdin w = rc # rest" "to_int L rc = None"
  shows "\<exists>w1. same_db w w1 \<and> stdin w1 = rest \<and>
           vote_on_song L i sg w = Return (Inl (ValueError, w1))"
proof -
  from resource_prompt [OF assms(2)]
  obtain w1 where "same_db w w1" "stdin w1 = rest"
    "py_input (S ''Select resource to upvote: '')
       (print_resources 1 (sort_resources (resources sg))
          (py_print (10 # S ''Resources for '' @ [39] @ song sg @ [39] @ S '':'') w)) = Inr (rc, w1)"
    by blast
  with assms show ?thesis by (auto simp: vote_on_song_def)
qed

lemma vote_on_song_out_of_range:
  assumes "resources sg \<noteq> []" "stdin w = rc # rest" "to_int L rc = Some m"
    "\<not> (1 \<le> m \<and> m \<le> int (length (resources sg)))"
  shows "\<exists>w1. same_db w w1 \<and> stdin w1 = rest \<and>
           vote_on_song L i sg w = Return (Inr (py_print (S ''Invalid selection.'') w1))"
proof -
  from resource_prompt [OF assms(2)]
  obtain w1 where "same_db w w1" "stdin w1 = rest"
    "py_input (S ''Select resource to upvote: '')
       (print_resources 1 (sort_resources (resources sg))
          (py_print (10 # S ''Resources for '' @ [39] @ song sg @ [39] @ S '':'') w)) = Inr (rc, w1)"
    by blast
  with assms show ?thesis by (auto simp: vote_on_song_def length_sort_resources)
qed

lemma vote_on_song_voted:
  assumes sg: "sg = songs w ! i"
    and ne: "resources sg \<noteq> []"
    and inp: "stdin w = rc # rest"
    and m: "to_int L rc = Some m" "1 \<le> m" "m \<le> int (length (resources sg))"
  shows "\<exists>w1 k. same_db w w1 \<and> stdin w1 = rest
           \<and> first_index (same_resource (sort_resources (resources sg) ! nat (m - 1)))
                (resources sg) k
           \<and> vote_on_song L i sg w = Return (vote_result L w1 i k)"
proof -
  from resource_prompt [OF inp]
  obtain w1 where w1: "same_db w w1" "stdin w1 = rest"
    "py_input (S ''Select resource to upvote: '')
       (print_resources 1 (sort_resources (resources sg))
          (py_print (10 # S ''Resources for '' @ [39] @ song sg @ [39] @ S '':'') w)) = Inr (rc, w1)"
    by blast
  from m have lt: "nat (m - 1) < length (resources sg)" by auto
  from sorted_nth_member [OF lt] find_resource_member
  obtain k where k: "find_resource (sort_resources (resources sg) ! nat (m - 1)) 0
                       (resources sg) = Some k"
    by blast
  from find_resource_Some [OF k]
  have fi: "first_index (same_resource (sort_resources (resources sg) ! nat (m - 1)))
              (resources sg) k"
    by (simp add: same_resource_def [abs_def])
  from w1(1) have "songs w1 = songs w" by (simp add: same_db_def)
  with w1(3) ne m k sg
  have "vote_on_song L i sg w = Return (vote_result L w1 i k)"
    by (simp add: vote_on_song_def length_sort_resources vote_result_def upvote_def
        split: sum.splits)
  with w1 fi show ?thesis by blast
qed

text \<open>The whole run of a vote that succeeds.\<close>

lemma vote_on_resource_voted:
  assumes ne: "songs w \<noteq> []"
    and inp: "stdin w = q # c # rc # rest"
    and q: "lower L (strip L q) \<noteq> []"
    and n: "to_int L c = Some n" "1 \<le> n" "n \<le> int (length (search L w (lower L (strip L q))))"
    and i: "first_index (same_song (search L w (lower L (strip L q)) ! nat (n - 1))) (songs w) i"
    and rne: "resources (songs w ! i) \<noteq> []"
    and m: "to_int L rc = Some m" "1 \<le> m" "m \<le> int (length (resources (songs w ! i)))"
  shows "\<exists>w1 k. same_db w w1 \<and> stdin w1 = rest
           \<and> first_index (same_resource (sort_resources (resources (songs w ! i)) ! nat (m - 1)))
                (resources (songs w ! i)) k
           \<and> vote_on_resource L w = Inr (voted L w1 i k)"
proof -
  from vote_on_resource_selected [OF ne inp q n]
  obtain j w2 r where j: "first_index (same_song (search L w (lower L (strip L q)) ! nat (n - 1))) (songs w) j"
    and w2: "same_db w w2" "stdin w2 = rc # rest"
    and r: "vote_on_song L j (songs w ! j) w2 = Return r" "vote_on_resource L w = except_ValueError r"
    by blast
  from first_index_unique [OF i j] have ji: "j = i" by simp
  from w2(1) have sw: "songs w2 = songs w" by (simp add: same_db_def)
  from vote_on_song_voted [of "songs w ! i" w2 i rc rest L m] sw rne w2(2) m
  obtain w1 k where w1: "same_db w2 w1" "stdin w1 = rest"
      "first_index (same_resource (sort_resources (resources (songs w ! i)) ! nat (m - 1)))
         (resources (songs w ! i)) k"
      "vote_on_song L i (songs w ! i) w2 = Return (vote_result L w1 i k)"
    by auto
  from w2(1) w1(1) have "same_db w w1" by (rule same_db_trans)
  moreover from r(1) w1(4) ji have "r = vote_result L w1 i k" by simp
  with r(2) have "vote_on_resource L w = Inr (voted L w1 i k)"
    by (simp add: except_vote_result)
  ultimately show ?thesis using w1(2,3) by blast
qed

lemma upvote_pointwise:
  assumes "i < length sgs" "k < length (resources (sgs ! i))"
  shows "length (upvote sgs i k) = length sgs
     \<and> (\<forall>j<length sgs.
           artist (upvote sgs i k ! j) = artist (sgs ! j)
         \<and> song (upvote sgs i k ! j) = song (sgs ! j)
         \<and> artist_original (upvote sgs i k ! j) = artist_original (sgs ! j)
         \<and> song_original (upvote sgs i k ! j) = song_original (sgs ! j)
         \<and> length (resources (upvote sgs i k ! j)) = length (resources (sgs ! j))
         \<and> (\<forall>l<length (resources (sgs ! j)).
               resources (upvote sgs i k ! j) ! l =
                 (if j = i \<and> l = k
                  then (resources (sgs ! j) ! l)\<lparr>votes := votes (resources (sgs ! j) ! l) + 1\<rparr>
                  else resources (sgs ! j) ! l)))"
  using assms by (auto simp: upvote_def nth_list_update)

lemma vote_success:
  assumes "vote_on_resource L w = Inr w'" "writes w' \<noteq> writes w"
  shows "\<exists>i k. i < length (songs w) \<and> k < length (resources (songs w ! i))
           \<and> songs w' = upvote (songs w) i k \<and> writes w' = Suc (writes w)"
proof -
  from vote_on_resource_outcome [of L w] assms
  obtain i k w1 where "same_db w w1" "i < length (songs w)"
    "k < length (resources (songs w ! i))" "w' = voted L w1 i k"
    by (auto simp: same_db_def)
  with same_db_voted [of w w1 L i k] show ?thesis by auto
qed

lemma voted_on_increment:
  assumes "voted_on L i k w w'"
  shows "votes (resources (songs w' ! i) ! k) = votes (resources (songs w ! i) ! k) + 1"
proof -
  from assms obtain w0 where w0: "same_db w w0" "vote_on_resource L w0 = Inr w'"
      "writes w' \<noteq> writes w0"
    and il: "i < length (songs w)" and kl: "k < length (resources (songs w ! i))"
    and ne: "votes (resources (songs w' ! i) ! k) \<noteq> votes (resources (songs w ! i) ! k)"
    by (auto simp: voted_on_def)
  from w0(1) have sw: "songs w0 = songs w" by (simp add: same_db_def)
  from vote_success [OF w0(2,3)] sw
  obtain i' k' where b: "i' < length (songs w)" "k' < length (resources (songs w ! i'))"
    and up: "songs w' = upvote (songs w) i' k'"
    by auto
  from upvote_pointwise [OF b] il kl
  have "resources (songs w' ! i) ! k =
          (if i = i' \<and> k = k'
           then (resources (songs w ! i) ! k)\<lparr>votes := votes (resources (songs w ! i) ! k) + 1\<rparr>
           else resources (songs w ! i) ! k)"
    unfolding up by blast
  with ne show ?thesis by (auto split: if_splits)
qed

lemma voted_on_chain:
  "successively (voted_on L i k) ws \<Longrightarrow>
     sorted_wrt (<) (map (\<lambda>w. votes (resources (songs w ! i) ! k)) ws)"
proof -
  assume "successively (voted_on L i k) ws"
  then have "successively (\<lambda>a b. votes (resources (songs a ! i) ! k)
                                  < votes (resources (songs b ! i) ! k)) ws"
    by (rule successively_mono) (simp add: voted_on_increment)
  then have "successively (<) (map (\<lambda>w. votes (resources (songs w ! i) ! k)) ws)"
    by (simp add: successively_map)
  then show ?thesis
    by (simp add: successively_conv_sorted_wrt)
qed

text \<open>
  Claim C4. A vote completes successfully when the method returns normally and has
  saved (the write count changed; \<^verbatim>\<open>save\<close> is called on the success path only; the
  statement covers also the run in which that call raises on a string it cannot encode
  and the handler reports it). Then there are a
  song \<open>i\<close> and a resource \<open>k\<close> of it such that the new collection is the old one with
  the counter of that resource incremented by one: the number and order of the songs,
  the four text fields of every song, the number and order of every song's resources,
  and every resource other than resource \<open>k\<close> of song \<open>i\<close> are as before, and that
  resource differs in its votes only, by exactly one. Along any sequence of worlds in
  which each step is a successful vote that changes the counter of resource \<open>k0\<close> of
  song \<open>i0\<close>, that counter is strictly increasing.
\<close>

theorem vote_increments_one_counter:
  "(vote_on_resource L w = Inr w' \<and> writes w' \<noteq> writes w \<longrightarrow>
      (\<exists>i k. i < length (songs w) \<and> k < length (resources (songs w ! i))
         \<and> songs w' = upvote (songs w) i k
         \<and> length (songs w') = length (songs w)
         \<and> (\<forall>j<length (songs w).
               artist (songs w' ! j) = artist (songs w ! j)
             \<and> song (songs w' ! j) = song (songs w ! j)
             \<and> artist_original (songs w' ! j) = artist_original (songs w ! j)
             \<and> song_original (songs w' ! j) = song_original (songs w ! j)
             \<and> length (resources (songs w' ! j)) = length (resources (songs w ! j))
             \<and> (\<forall>l<length (resources (songs w ! j)).
                   resources (songs w' ! j) ! l =
                     (if j = i \<and> l = k
                      then (resources (songs w ! j) ! l)
                             \<lparr>votes := votes (resources (songs w ! j) ! l) + 1\<rparr>
                      else resources (songs w ! j) ! l)))))
   \<and> (successively (voted_on L i0 k0) ws \<longrightarrow>
        sorted_wrt (<) (map (\<lambda>w. votes (resources (songs w ! i0) ! k0)) ws))"
proof (intro conjI impI)
  assume a: "vote_on_resource L w = Inr w' \<and> writes w' \<noteq> writes w"
  with vote_success [of L w w']
  obtain i k where b: "i < length (songs w)" "k < length (resources (songs w ! i))"
    and up: "songs w' = upvote (songs w) i k"
    by auto
  from upvote_pointwise [OF b] up b
  show "\<exists>i k. i < length (songs w) \<and> k < length (resources (songs w ! i))
         \<and> songs w' = upvote (songs w) i k
         \<and> length (songs w') = length (songs w)
         \<and> (\<forall>j<length (songs w).
               artist (songs w' ! j) = artist (songs w ! j)
             \<and> song (songs w' ! j) = song (songs w ! j)
             \<and> artist_original (songs w' ! j) = artist_original (songs w ! j)
             \<and> song_original (songs w' ! j) = song_original (songs w ! j)
             \<and> length (resources (songs w' ! j)) = length (resources (songs w ! j))
             \<and> (\<forall>l<length (resources (songs w ! j)).
                   resources (songs w' ! j) ! l =
                     (if j = i \<and> l = k
                      then (resources (songs w ! j) ! l)
                             \<lparr>votes := votes (resources (songs w ! j) ! l) + 1\<rparr>
                      else resources (songs w ! j) ! l)))"
    by (intro exI [of _ i] exI [of _ k]) simp
next
  assume "successively (voted_on L i0 k0) ws"
  then show "sorted_wrt (<) (map (\<lambda>w. votes (resources (songs w ! i0) ! k0)) ws)"
    by (rule voted_on_chain)
qed

lemma ascii_evals:
  "lower ascii (strip ascii (S ''s1'')) = S ''s1''" "S ''s1'' \<noteq> []"
  "to_int ascii (S ''1'') = Some 1" "to_int ascii (S ''2'') = Some 2"
  "to_int ascii (S ''0'') = Some 0" "to_int ascii (S ''7'') = Some 7"
  "to_int ascii (S ''x'') = None"
  by (simp_all add: ascii_def ascii_lower_def ascii_strip_def ascii_int_def digits_value_def
      is_space_def S_def sublist_code(3))

lemma search_AB: "search ascii (world0 [song_A, song_B] inp) (S ''s1'') = [song_A]"
  by (simp add: search_def ascii_def ascii_lower_def world0_def song_A_def song_B_def S_def
      sublist_code(3))

lemma first_index_0: "P x \<Longrightarrow> first_index P (x # xs) 0"
  by (simp add: first_index_iff)

lemma first_index_Suc: "\<not> P x \<Longrightarrow> first_index P xs i \<Longrightarrow> first_index P (x # xs) (Suc i)"
  by (auto simp: first_index_iff less_Suc_eq_0_disj)

lemma resources_A:
  "resources song_A =
     [\<lparr>type = S ''vid.subs'', url = S ''u1'', language = S ''en'', votes = 2, content = None\<rparr>,
      \<lparr>type = S ''vid.lyrics'', url = S ''u2'', language = S ''en'', votes = 2, content = None\<rparr>,
      \<lparr>type = S ''vid.sync'', url = S ''u3'', language = S ''en'', votes = 5, content = None\<rparr>]"
  by (simp add: song_A_def)

lemma sorted_A:
  "sort_resources (resources song_A) =
     [\<lparr>type = S ''vid.sync'', url = S ''u3'', language = S ''en'', votes = 5, content = None\<rparr>,
      \<lparr>type = S ''vid.lyrics'', url = S ''u2'', language = S ''en'', votes = 2, content = None\<rparr>,
      \<lparr>type = S ''vid.subs'', url = S ''u1'', language = S ''en'', votes = 2, content = None\<rparr>]"
  by (simp add: resources_A sort_resources_def sorted_cmp_def compare_def S_def)

lemma first_sync_A:
  "first_index (same_resource (sort_resources (resources song_A) ! 0)) (resources song_A) 2"
proof -
  have "first_index (same_resource
          \<lparr>type = S ''vid.sync'', url = S ''u3'', language = S ''en'', votes = 5, content = None\<rparr>)
          (resources song_A) (Suc (Suc 0))"
    unfolding resources_A
    by (intro first_index_Suc first_index_0) (simp_all add: same_resource_def S_def)
  then show ?thesis by (simp add: sorted_A numeral_2_eq_2)
qed

theorem vote_increments_one_counter_witness:
  "\<exists>w'. vote_on_resource ascii world_A = Inr w' \<and> writes w' \<noteq> writes world_A
        \<and> successively (voted_on ascii 0 2) [world_A, w']
        \<and> songs w' = upvote [song_A, song_B] 0 2
        \<and> length (songs w') = length (songs world_A)
        \<and> sorted_wrt (<) (map (\<lambda>w. votes (resources (songs w ! 0) ! 2)) [world_A, w'])
        \<and> map (\<lambda>w. votes (resources (songs w ! 0) ! 2)) [world_A, w'] = [5, 6]"
proof -
  have sA: "songs world_A = [song_A, song_B]" "writes world_A = 0"
    by (simp_all add: world_A_def world0_def)
  have ne: "songs world_A \<noteq> []" by (simp add: sA)
  have inp: "stdin world_A = S ''s1'' # S ''1'' # S ''1'' # []"
    by (simp add: world_A_def world0_def)
  have q: "lower ascii (strip ascii (S ''s1'')) \<noteq> []" by (simp add: ascii_evals)
  have res': "search ascii world_A (S ''s1'') = [song_A]"
    by (simp add: world_A_def search_AB)
  have res: "search ascii world_A (lower ascii (strip ascii (S ''s1''))) = [song_A]"
    by (simp add: ascii_evals res')
  have n: "to_int ascii (S ''1'') = Some 1" "(1::int) \<le> 1"
    "1 \<le> int (length (search ascii world_A (lower ascii (strip ascii (S ''s1'')))))"
    by (simp_all add: res' ascii_evals)
  have i: "first_index (same_song (search ascii world_A (lower ascii (strip ascii (S ''s1'')))
              ! nat (1 - 1))) (songs world_A) 0"
    by (simp add: res' ascii_evals sA first_index_0 same_song_refl)
  have s0: "songs world_A ! 0 = song_A" by (simp add: sA)
  have rne: "resources (songs world_A ! 0) \<noteq> []" by (simp add: s0 resources_A)
  have m: "1 \<le> int (length (resources (songs world_A ! 0)))" by (simp add: s0 resources_A)
  from vote_on_resource_voted [OF ne inp q n i rne n(1,2) m]
  obtain w1 k where w1: "same_db world_A w1"
    and k: "first_index (same_resource (sort_resources (resources song_A) ! 0)) (resources song_A) k"
    and v: "vote_on_resource ascii world_A = Inr (voted ascii w1 0 k)"
    unfolding s0 by auto
  from first_index_unique [OF k first_sync_A] have k2: "k = 2" by simp
  let ?w' = "voted ascii w1 0 2"
  from same_db_voted [OF w1, of ascii 0 2]
  have sv: "songs ?w' = upvote [song_A, song_B] 0 2" "writes ?w' = Suc 0"
    by (simp_all add: sA)
  have v5: "votes (resources (songs world_A ! 0) ! 2) = 5"
    by (simp add: s0 resources_A)
  have v6: "votes (resources (songs ?w' ! 0) ! 2) = 6"
    by (simp add: sv upvote_def resources_A)
  have run: "vote_on_resource ascii world_A = Inr ?w'" "writes ?w' \<noteq> writes world_A"
    using v k2 sv sA by simp_all
  have "same_db world_A world_A \<and> vote_on_resource ascii world_A = Inr ?w'
          \<and> writes ?w' \<noteq> writes world_A"
    using run by simp
  then have "\<exists>w0. same_db world_A w0 \<and> vote_on_resource ascii w0 = Inr ?w'
          \<and> writes ?w' \<noteq> writes w0" ..
  with v5 v6 have step: "voted_on ascii 0 2 world_A ?w'"
    unfolding voted_on_def by (simp add: s0 resources_A sA)
  then have chain: "successively (voted_on ascii 0 2) [world_A, ?w']" by simp
  from vote_increments_one_counter [of ascii world_A ?w' 0 2 "[world_A, ?w']"] run chain
  have "length (songs ?w') = length (songs world_A)"
    and "sorted_wrt (<) (map (\<lambda>w. votes (resources (songs w ! 0) ! 2)) [world_A, ?w'])"
    by blast+
  with run chain sv v5 v6 show ?thesis
    by (intro exI [of _ ?w']) simp
qed

lemma last_stdout_print [simp]: "last (stdout (py_print s w)) = Print s"
  by (simp add: py_print_def)

lemma vote_song_step_rejected:
  assumes ne: "songs w \<noteq> []"
    and inp: "stdin w = q # c # rest"
    and q: "lower L (strip L q) \<noteq> []"
    and rne: "search L w (lower L (strip L q)) \<noteq> []"
    and bad: "to_int L c = None
              \<or> (\<exists>n. to_int L c = Some n
                     \<and> \<not> (1 \<le> n \<and> n \<le> int (length (search L w (lower L (strip L q))))))"
  shows "\<exists>w'. vote_on_resource L w = Inr w' \<and> same_db w w' \<and> stdin w' = rest
           \<and> last (stdout w') = Print (if to_int L c = None then S ''Please enter a valid number.''
                                       else S ''Invalid selection.'')"
proof -
  let ?results = "search L w (lower L (strip L q))"
  from vote_on_resource_results [OF ne inp q rne]
  obtain w1 where w1: "same_db w w1" "stdin w1 = c # rest"
    "vote_on_resource L w = except_ValueError (vote_try L ?results w1)"
    by blast
  show ?thesis
  proof (cases "to_int L c")
    case None
    from vote_try_not_a_number [OF w1(2) None, of ?results]
    obtain w2 where w2: "same_db w1 w2" "stdin w2 = rest"
      "except_ValueError (vote_try L ?results w1)
         = Inr (py_print (S ''Please enter a valid number.'') w2)"
      by blast
    from w1(1) w2(1) have "same_db w w2" by (rule same_db_trans)
    with w1(3) w2(2,3) None show ?thesis by (simp add: py_print_def same_db_def)
  next
    case (Some n)
    with bad have "\<not> (1 \<le> n \<and> n \<le> int (length ?results))" by simp
    from vote_try_out_of_range [OF w1(2) Some this]
    obtain w2 where w2: "same_db w1 w2" "stdin w2 = rest"
      "except_ValueError (vote_try L ?results w1) = Inr (py_print (S ''Invalid selection.'') w2)"
      by blast
    from w1(1) w2(1) have "same_db w w2" by (rule same_db_trans)
    with w1(3) w2(2,3) Some show ?thesis by (simp add: py_print_def same_db_def)
  qed
qed

lemma vote_resource_step_rejected:
  assumes ne: "songs w \<noteq> []"
    and inp: "stdin w = q # c # rc # rest"
    and q: "lower L (strip L q) \<noteq> []"
    and n: "to_int L c = Some n" "1 \<le> n" "n \<le> int (length (search L w (lower L (strip L q))))"
    and i: "first_index (same_song (search L w (lower L (strip L q)) ! nat (n - 1))) (songs w) i"
    and rne: "resources (songs w ! i) \<noteq> []"
    and bad: "to_int L rc = None
              \<or> (\<exists>m. to_int L rc = Some m
                     \<and> \<not> (1 \<le> m \<and> m \<le> int (length (resources (songs w ! i)))))"
  shows "\<exists>w'. vote_on_resource L w = Inr w' \<and> same_db w w' \<and> stdin w' = rest
           \<and> last (stdout w') = Print (if to_int L rc = None then S ''Please enter a valid number.''
                                       else S ''Invalid selection.'')"
proof -
  from vote_on_resource_selected [OF ne inp q n]
  obtain j w2 r where j: "first_index (same_song (search L w (lower L (strip L q)) ! nat (n - 1))) (songs w) j"
    and w2: "same_db w w2" "stdin w2 = rc # rest"
    and r: "vote_on_song L j (songs w ! j) w2 = Return r" "vote_on_resource L w = except_ValueError r"
    by blast
  from first_index_unique [OF i j] have ji: "j = i" by simp
  show ?thesis
  proof (cases "to_int L rc")
    case None
    from vote_on_song_not_a_number [OF rne w2(2) None, of i]
    obtain w3 where w3: "same_db w2 w3" "stdin w3 = rest"
      "vote_on_song L i (songs w ! i) w2 = Return (Inl (ValueError, w3))"
      by blast
    from w2(1) w3(1) have db: "same_db w w3" by (rule same_db_trans)
    from r(1) w3(3) ji have "r = Inl (ValueError, w3)" by simp
    with r(2) have "vote_on_resource L w = Inr (py_print (S ''Please enter a valid number.'') w3)"
      by (simp add: except_ValueError_def)
    with db w3(2) None show ?thesis by (simp add: py_print_def same_db_def)
  next
    case (Some m)
    with bad have "\<not> (1 \<le> m \<and> m \<le> int (length (resources (songs w ! i))))" by simp
    from vote_on_song_out_of_range [OF rne w2(2) Some this, of i]
    obtain w3 where w3: "same_db w2 w3" "stdin w3 = rest"
      "vote_on_song L i (songs w ! i) w2 = Return (Inr (py_print (S ''Invalid selection.'') w3))"
      by blast
    from w2(1) w3(1) have db: "same_db w w3" by (rule same_db_trans)
    from r(1) w3(3) ji have "r = Inr (py_print (S ''Invalid selection.'') w3)" by simp
    with r(2) have "vote_on_resource L w = Inr (py_print (S ''Invalid selection.'') w3)"
      by (simp add: except_ValueError_def)
    with db w3(2) Some show ?thesis by (simp add: py_print_def same_db_def)
  qed
qed

text \<open>
  Claim C6. At the song selection and at the resource selection of a vote, an input
  that \<^verbatim>\<open>int\<close> rejects, or a number that is not a 1-based index into the list shown
  (zero and negative numbers included), makes the method print a message (``Please
  enter a valid number.'' and ``Invalid selection.'') as the last thing it writes and
  return normally, with the collection, the file and the number of writes as before:
  no counter is changed and nothing is saved.
\<close>

theorem vote_rejects_bad_selection:
  "(songs w \<noteq> [] \<and> stdin w = q # c # rest \<and> lower L (strip L q) \<noteq> []
      \<and> search L w (lower L (strip L q)) \<noteq> []
      \<and> (to_int L c = None
           \<or> (\<exists>n. to_int L c = Some n
                  \<and> \<not> (1 \<le> n \<and> n \<le> int (length (search L w (lower L (strip L q)))))))
    \<longrightarrow> (\<exists>w'. vote_on_resource L w = Inr w'
              \<and> songs w' = songs w \<and> db_file w' = db_file w \<and> writes w' = writes w
              \<and> last (stdout w') = Print (if to_int L c = None
                                          then S ''Please enter a valid number.''
                                          else S ''Invalid selection.'')))
   \<and> (songs w \<noteq> [] \<and> stdin w = q # c # rc # rest' \<and> lower L (strip L q) \<noteq> []
      \<and> to_int L c = Some n \<and> 1 \<le> n \<and> n \<le> int (length (search L w (lower L (strip L q))))
      \<and> first_index (same_song (search L w (lower L (strip L q)) ! nat (n - 1))) (songs w) i
      \<and> resources (songs w ! i) \<noteq> []
      \<and> (to_int L rc = None
           \<or> (\<exists>m. to_int L rc = Some m
                  \<and> \<not> (1 \<le> m \<and> m \<le> int (length (resources (songs w ! i))))))
    \<longrightarrow> (\<exists>w'. vote_on_resource L w = Inr w'
              \<and> songs w' = songs w \<and> db_file w' = db_file w \<and> writes w' = writes w
              \<and> last (stdout w') = Print (if to_int L rc = None
                                          then S ''Please enter a valid number.''
                                          else S ''Invalid selection.'')))"
proof (intro conjI impI)
  assume a: "songs w \<noteq> [] \<and> stdin w = q # c # rest \<and> lower L (strip L q) \<noteq> []
      \<and> search L w (lower L (strip L q)) \<noteq> []
      \<and> (to_int L c = None
           \<or> (\<exists>n. to_int L c = Some n
                  \<and> \<not> (1 \<le> n \<and> n \<le> int (length (search L w (lower L (strip L q)))))))"
  then have h: "songs w \<noteq> []" "stdin w = q # c # rest" "lower L (strip L q) \<noteq> []"
    "search L w (lower L (strip L q)) \<noteq> []"
    "to_int L c = None
       \<or> (\<exists>n. to_int L c = Some n
              \<and> \<not> (1 \<le> n \<and> n \<le> int (length (search L w (lower L (strip L q))))))"
    by blast+
  have "\<exists>w'. vote_on_resource L w = Inr w' \<and> same_db w w' \<and> stdin w' = rest
           \<and> last (stdout w') = Print (if to_int L c = None then S ''Please enter a valid number.''
                                       else S ''Invalid selection.'')"
    by (rule vote_song_step_rejected [OF h])
  then show "\<exists>w'. vote_on_resource L w = Inr w'
              \<and> songs w' = songs w \<and> db_file w' = db_file w \<and> writes w' = writes w
              \<and> last (stdout w') = Print (if to_int L c = None
                                          then S ''Please enter a valid number.''
                                          else S ''Invalid selection.'')"
    unfolding same_db_def by blast
next
  assume a: "songs w \<noteq> [] \<and> stdin w = q # c # rc # rest' \<and> lower L (strip L q) \<noteq> []
      \<and> to_int L c = Some n \<and> 1 \<le> n \<and> n \<le> int (length (search L w (lower L (strip L q))))
      \<and> first_index (same_song (search L w (lower L (strip L q)) ! nat (n - 1))) (songs w) i
      \<and> resources (songs w ! i) \<noteq> []
      \<and> (to_int L rc = None
           \<or> (\<exists>m. to_int L rc = Some m
                  \<and> \<not> (1 \<le> m \<and> m \<le> int (length (resources (songs w ! i))))))"
  then have h: "songs w \<noteq> []" "stdin w = q # c # rc # rest'" "lower L (strip L q) \<noteq> []"
    "to_int L c = Some n" "1 \<le> n" "n \<le> int (length (search L w (lower L (strip L q))))"
    "first_index (same_song (search L w (lower L (strip L q)) ! nat (n - 1))) (songs w) i"
    "resources (songs w ! i) \<noteq> []"
    "to_int L rc = None
       \<or> (\<exists>m. to_int L rc = Some m
              \<and> \<not> (1 \<le> m \<and> m \<le> int (length (resources (songs w ! i)))))"
    by blast+
  have "\<exists>w'. vote_on_resource L w = Inr w' \<and> same_db w w' \<and> stdin w' = rest'
           \<and> last (stdout w') = Print (if to_int L rc = None then S ''Please enter a valid number.''
                                       else S ''Invalid selection.'')"
    by (rule vote_resource_step_rejected [OF h])
  then show "\<exists>w'. vote_on_resource L w = Inr w'
              \<and> songs w' = songs w \<and> db_file w' = db_file w \<and> writes w' = writes w
              \<and> last (stdout w') = Print (if to_int L rc = None
                                          then S ''Please enter a valid number.''
                                          else S ''Invalid selection.'')"
    unfolding same_db_def by blast
qed

theorem vote_rejects_bad_selection_witness:
  "(\<exists>w'. vote_on_resource ascii (world0 [song_A, song_B] [S ''s1'', S ''x'']) = Inr w'
         \<and> songs w' = [song_A, song_B] \<and> db_file w' = Absent \<and> writes w' = 0
         \<and> last (stdout w') = Print (S ''Please enter a valid number.''))
   \<and> (\<exists>w'. vote_on_resource ascii (world0 [song_A, song_B] [S ''s1'', S ''7'']) = Inr w'
         \<and> songs w' = [song_A, song_B] \<and> db_file w' = Absent \<and> writes w' = 0
         \<and> last (stdout w') = Print (S ''Invalid selection.''))
   \<and> (\<exists>w'. vote_on_resource ascii (world0 [song_A, song_B] [S ''s1'', S ''1'', S ''x'']) = Inr w'
         \<and> songs w' = [song_A, song_B] \<and> db_file w' = Absent \<and> writes w' = 0
         \<and> last (stdout w') = Print (S ''Please enter a valid number.''))
   \<and> (\<exists>w'. vote_on_resource ascii (world0 [song_A, song_B] [S ''s1'', S ''1'', S ''0'']) = Inr w'
         \<and> songs w' = [song_A, song_B] \<and> db_file w' = Absent \<and> writes w' = 0
         \<and> last (stdout w') = Print (S ''Invalid selection.''))"
proof -
  have f0: "first_index (same_song song_A) [song_A, song_B] 0"
    by (simp add: first_index_0 same_song_refl)
  have 1: "\<exists>w'. vote_on_resource ascii (world0 [song_A, song_B] [S ''s1'', S ''x'']) = Inr w'
         \<and> songs w' = [song_A, song_B] \<and> db_file w' = Absent \<and> writes w' = 0
         \<and> last (stdout w') = Print (S ''Please enter a valid number.'')"
    using vote_rejects_bad_selection [where L = ascii and q = "S ''s1''" and c = "S ''x''"
        and rest = "[]" and w = "world0 [song_A, song_B] [S ''s1'', S ''x'']", THEN conjunct1]
    by (simp add: world0_def ascii_evals search_AB [unfolded world0_def])
  have 2: "\<exists>w'. vote_on_resource ascii (world0 [song_A, song_B] [S ''s1'', S ''7'']) = Inr w'
         \<and> songs w' = [song_A, song_B] \<and> db_file w' = Absent \<and> writes w' = 0
         \<and> last (stdout w') = Print (S ''Invalid selection.'')"
    using vote_rejects_bad_selection [where L = ascii and q = "S ''s1''" and c = "S ''7''"
        and rest = "[]" and w = "world0 [song_A, song_B] [S ''s1'', S ''7'']", THEN conjunct1]
    by (simp add: world0_def ascii_evals search_AB [unfolded world0_def])
  have 3: "\<exists>w'. vote_on_resource ascii (world0 [song_A, song_B] [S ''s1'', S ''1'', S ''x'']) = Inr w'
         \<and> songs w' = [song_A, song_B] \<and> db_file w' = Absent \<and> writes w' = 0
         \<and> last (stdout w') = Print (S ''Please enter a valid number.'')"
    using vote_rejects_bad_selection [where L = ascii and q = "S ''s1''" and c = "S ''1''"
        and rc = "S ''x''" and rest' = "[]" and n = 1 and i = 0
        and w = "world0 [song_A, song_B] [S ''s1'', S ''1'', S ''x'']", THEN conjunct2] f0
    by (simp add: world0_def ascii_evals search_AB [unfolded world0_def] resources_A)
  have 4: "\<exists>w'. vote_on_resource ascii (world0 [song_A, song_B] [S ''s1'', S ''1'', S ''0'']) = Inr w'
         \<and> songs w' = [song_A, song_B] \<and> db_file w' = Absent \<and> writes w' = 0
         \<and> last (stdout w') = Print (S ''Invalid selection.'')"
    using vote_rejects_bad_selection [where L = ascii and q = "S ''s1''" and c = "S ''1''"
        and rc = "S ''0''" and rest' = "[]" and n = 1 and i = 0
        and w = "world0 [song_A, song_B] [S ''s1'', S ''1'', S ''0'']", THEN conjunct2] f0
    by (simp add: world0_def ascii_evals search_AB [unfolded world0_def] resources_A)
  from 1 2 3 4 show ?thesis by blast
qed

lemma vote_on_song_display:
  assumes "resources sg \<noteq> []" "vote_on_song L i sg w = Return r"
  shows "prefix (stdout (resource_display sg w)) (stdout (result_world r))"
  using assms
  by (auto simp: vote_on_song_def resource_display_def py_input_def Let_def py_print_def
      save_def result_world_def split: list.splits option.splits if_splits)

lemma except_ValueError_display:
  "prefix evs (stdout (result_world r)) \<Longrightarrow>
     prefix evs (stdout (result_world (except_ValueError r)))"
  by (auto simp: except_ValueError_def result_world_def py_print_def split: sum.splits)

lemma songs_vote_result: "songs (result_world (vote_result L w1 i k)) = upvote (songs w1) i k"
  by (simp add: vote_result_def save_def py_print_def result_world_def)

lemma songs_voted: "songs (voted L w1 i k) = upvote (songs w1) i k"
  by (simp add: voted_def vote_result_def save_def except_ValueError_def result_world_def
      py_print_def)

lemma vote_on_song_changes:
  assumes sg: "sg = songs w ! i"
    and run: "vote_on_song L i sg w = Return r"
    and ch: "songs (result_world r) \<noteq> songs w"
  shows "\<exists>k. k < length (resources sg) \<and> songs (result_world r) = upvote (songs w) i k"
proof -
  from vote_on_song_outcome [OF sg, of L] run
  consider w' where "r = Inr w'" "same_db w w'"
    | e w' where "r = Inl (e, w')" "same_db w w'"
    | k w1 where "same_db w w1" "k < length (resources sg)" "r = vote_result L w1 i k"
    by (auto simp: first_index_iff)
  then show ?thesis
  proof cases
    case 1
    with ch show ?thesis by (simp add: result_world_def same_db_def)
  next
    case 2
    with ch show ?thesis by (simp add: result_world_def same_db_def)
  next
    case 3
    then show ?thesis by (auto simp: songs_vote_result same_db_def)
  qed
qed

lemma songs_except_ValueError [simp]:
  "songs (result_world (except_ValueError r)) = songs (result_world r)"
  by (auto simp: except_ValueError_def result_world_def py_print_def split: sum.splits)

text \<open>
  Claim C9. Once the user has chosen entry \<open>n\<close> of the search results, the method goes
  to the first song \<open>i\<close> of the collection that has the artist and song of the chosen
  entry, whichever of several such songs the entry was: the outcome of the method is
  the outcome of the loop body on song \<open>i\<close> (with a \<^verbatim>\<open>ValueError\<close> reported). So the
  abort for a song without resources is decided by song \<open>i\<close>, the resources displayed
  are the ranked resources of song \<open>i\<close>, and a change of the collection is an increment
  of a counter of song \<open>i\<close>.
\<close>

theorem vote_relocates_to_first_match:
  "songs w \<noteq> [] \<and> stdin w = q # c # rest \<and> lower L (strip L q) \<noteq> []
     \<and> to_int L c = Some n \<and> 1 \<le> n \<and> n \<le> int (length (search L w (lower L (strip L q))))
   \<longrightarrow>
   (\<exists>i w2 r.
      first_index (same_song (search L w (lower L (strip L q)) ! nat (n - 1))) (songs w) i
      \<and> same_db w w2 \<and> stdin w2 = rest
      \<and> vote_on_song L i (songs w ! i) w2 = Return r
      \<and> vote_on_resource L w = except_ValueError r
      \<and> (resources (songs w ! i) = [] \<longrightarrow>
            vote_on_resource L w = Inr (py_print (S ''This song has no resources.'') w2))
      \<and> (resources (songs w ! i) \<noteq> [] \<longrightarrow>
            prefix (stdout (resource_display (songs w ! i) w2))
              (stdout (result_world (vote_on_resource L w))))
      \<and> (songs (result_world (vote_on_resource L w)) \<noteq> songs w \<longrightarrow>
            (\<exists>k. k < length (resources (songs w ! i))
                \<and> songs (result_world (vote_on_resource L w)) = upvote (songs w) i k)))"
proof
  assume "songs w \<noteq> [] \<and> stdin w = q # c # rest \<and> lower L (strip L q) \<noteq> []
     \<and> to_int L c = Some n \<and> 1 \<le> n \<and> n \<le> int (length (search L w (lower L (strip L q))))"
  then have h: "songs w \<noteq> []" "stdin w = q # c # rest" "lower L (strip L q) \<noteq> []"
    "to_int L c = Some n" "1 \<le> n" "n \<le> int (length (search L w (lower L (strip L q))))"
    by blast+
  from vote_on_resource_selected [OF h]
  obtain i w2 r
    where i: "first_index (same_song (search L w (lower L (strip L q)) ! nat (n - 1))) (songs w) i"
      and w2: "same_db w w2" "stdin w2 = rest"
      and r: "vote_on_song L i (songs w ! i) w2 = Return r"
      and v: "vote_on_resource L w = except_ValueError r"
    by blast
  from w2(1) have sw: "songs w2 = songs w" by (simp add: same_db_def)
  have a: "resources (songs w ! i) = [] \<longrightarrow>
            vote_on_resource L w = Inr (py_print (S ''This song has no resources.'') w2)"
  proof
    assume "resources (songs w ! i) = []"
    from vote_on_song_no_resources [OF this, of L i w2] r
    have "r = Inr (py_print (S ''This song has no resources.'') w2)" by simp
    with v show "vote_on_resource L w = Inr (py_print (S ''This song has no resources.'') w2)"
      by (simp add: except_ValueError_def)
  qed
  have b: "resources (songs w ! i) \<noteq> [] \<longrightarrow>
            prefix (stdout (resource_display (songs w ! i) w2))
              (stdout (result_world (vote_on_resource L w)))"
    unfolding v using vote_on_song_display [OF _ r] except_ValueError_display by blast
  have c: "songs (result_world (vote_on_resource L w)) \<noteq> songs w \<longrightarrow>
            (\<exists>k. k < length (resources (songs w ! i))
                \<and> songs (result_world (vote_on_resource L w)) = upvote (songs w) i k)"
    unfolding v using vote_on_song_changes [of "songs w ! i" w2 i L r] r sw by simp
  from i w2 r v a b c
  show "\<exists>i w2 r.
      first_index (same_song (search L w (lower L (strip L q)) ! nat (n - 1))) (songs w) i
      \<and> same_db w w2 \<and> stdin w2 = rest
      \<and> vote_on_song L i (songs w ! i) w2 = Return r
      \<and> vote_on_resource L w = except_ValueError r
      \<and> (resources (songs w ! i) = [] \<longrightarrow>
            vote_on_resource L w = Inr (py_print (S ''This song has no resources.'') w2))
      \<and> (resources (songs w ! i) \<noteq> [] \<longrightarrow>
            prefix (stdout (resource_display (songs w ! i) w2))
              (stdout (result_world (vote_on_resource L w))))
      \<and> (songs (result_world (vote_on_resource L w)) \<noteq> songs w \<longrightarrow>
            (\<exists>k. k < length (resources (songs w ! i))
                \<and> songs (result_world (vote_on_resource L w)) = upvote (songs w) i k))"
    by blast
qed

lemma search_DA: "search ascii (world0 [song_D, song_A] inp) (S ''s1'') = [song_D, song_A]"
  by (simp add: search_def ascii_def ascii_lower_def world0_def song_A_def song_D_def S_def
      sublist_code(3))

lemma same_song_D_A: "same_song song_A song_D"
  by (simp add: same_song_def song_A_def song_D_def)

theorem vote_relocates_to_first_match_witness:
  "search ascii world_D (S ''s1'') ! nat (2 - 1) = song_A
   \<and> songs world_D ! 0 = song_D \<and> song_D \<noteq> song_A
   \<and> first_index (same_song song_A) (songs world_D) 0
   \<and> (\<exists>w'. vote_on_resource ascii world_D = Inr w'
          \<and> last (stdout w') = Print (S ''This song has no resources.'')
          \<and> songs w' = songs world_D)"
proof -
  have sD: "songs world_D = [song_D, song_A]" "stdin world_D = S ''s1'' # S ''2'' # []"
    by (simp_all add: world_D_def world0_def)
  have res: "search ascii world_D (S ''s1'') = [song_D, song_A]"
    by (simp add: world_D_def search_DA)
  have sel: "search ascii world_D (S ''s1'') ! nat (2 - 1) = song_A"
    by (simp add: res)
  have ne: "song_D \<noteq> song_A"
    by (simp add: song_D_def song_A_def)
  have f0: "first_index (same_song song_A) (songs world_D) 0"
    by (simp add: sD first_index_0 same_song_D_A)
  have h: "songs world_D \<noteq> [] \<and> stdin world_D = S ''s1'' # S ''2'' # []
     \<and> lower ascii (strip ascii (S ''s1'')) \<noteq> []
     \<and> to_int ascii (S ''2'') = Some 2 \<and> (1::int) \<le> 2
     \<and> 2 \<le> int (length (search ascii world_D (lower ascii (strip ascii (S ''s1'')))))"
    by (simp add: sD ascii_evals res)
  from vote_relocates_to_first_match [where L = ascii and w = world_D and q = "S ''s1''"
      and c = "S ''2''" and rest = "[]" and n = 2, rule_format, OF h]
  obtain i w2 where i: "first_index (same_song song_A) (songs world_D) i"
    and w2: "same_db world_D w2"
    and a: "resources (songs world_D ! i) = [] \<longrightarrow>
            vote_on_resource ascii world_D = Inr (py_print (S ''This song has no resources.'') w2)"
    by (auto simp: ascii_evals res)
  from first_index_unique [OF i f0] have "i = 0" .
  with a have "vote_on_resource ascii world_D = Inr (py_print (S ''This song has no resources.'') w2)"
    by (simp add: sD song_D_def)
  moreover from w2 have "songs (py_print (S ''This song has no resources.'') w2) = songs world_D"
    by (simp add: same_db_def py_print_def)
  ultimately have "\<exists>w'. vote_on_resource ascii world_D = Inr w'
          \<and> last (stdout w') = Print (S ''This song has no resources.'')
          \<and> songs w' = songs world_D"
    by (intro exI [of _ "py_print (S ''This song has no resources.'') w2"]) simp
  with sel ne f0 show ?thesis by (simp add: sD)
qed

text \<open>
  Claim C10. When the user picks entry \<open>m\<close> of the ranked resources of the located song
  \<open>i\<close>, the counter that is incremented is that of the first resource \<open>k\<close> of the
  song's stored list with the type and url of the picked entry. With several resources
  of that type and url, this is the first of them in stored order, which need not be
  the picked one.
\<close>

theorem vote_increments_first_same_type_url:
  "songs w \<noteq> [] \<and> stdin w = q # c # rc # rest \<and> lower L (strip L q) \<noteq> []
     \<and> to_int L c = Some n \<and> 1 \<le> n \<and> n \<le> int (length (search L w (lower L (strip L q))))
     \<and> first_index (same_song (search L w (lower L (strip L q)) ! nat (n - 1))) (songs w) i
     \<and> resources (songs w ! i) \<noteq> []
     \<and> to_int L rc = Some m \<and> 1 \<le> m \<and> m \<le> int (length (resources (songs w ! i)))
   \<longrightarrow>
   (\<exists>k w'. vote_on_resource L w = Inr w'
      \<and> first_index (same_resource (sort_resources (resources (songs w ! i)) ! nat (m - 1)))
           (resources (songs w ! i)) k
      \<and> songs w' = upvote (songs w) i k
      \<and> writes w' = Suc (writes w))"
proof
  assume "songs w \<noteq> [] \<and> stdin w = q # c # rc # rest \<and> lower L (strip L q) \<noteq> []
     \<and> to_int L c = Some n \<and> 1 \<le> n \<and> n \<le> int (length (search L w (lower L (strip L q))))
     \<and> first_index (same_song (search L w (lower L (strip L q)) ! nat (n - 1))) (songs w) i
     \<and> resources (songs w ! i) \<noteq> []
     \<and> to_int L rc = Some m \<and> 1 \<le> m \<and> m \<le> int (length (resources (songs w ! i)))"
  then have h: "songs w \<noteq> []" "stdin w = q # c # rc # rest" "lower L (strip L q) \<noteq> []"
    "to_int L c = Some n" "1 \<le> n" "n \<le> int (length (search L w (lower L (strip L q))))"
    "first_index (same_song (search L w (lower L (strip L q)) ! nat (n - 1))) (songs w) i"
    "resources (songs w ! i) \<noteq> []"
    "to_int L rc = Some m" "1 \<le> m" "m \<le> int (length (resources (songs w ! i)))"
    by blast+
  from vote_on_resource_voted [OF h]
  obtain w1 k where w1: "same_db w w1"
    and k: "first_index (same_resource (sort_resources (resources (songs w ! i)) ! nat (m - 1)))
              (resources (songs w ! i)) k"
    and v: "vote_on_resource L w = Inr (voted L w1 i k)"
    by blast
  from same_db_voted [OF w1, of L i k]
  have "songs (voted L w1 i k) = upvote (songs w) i k" "writes (voted L w1 i k) = Suc (writes w)"
    by simp_all
  with k v show "\<exists>k w'. vote_on_resource L w = Inr w'
      \<and> first_index (same_resource (sort_resources (resources (songs w ! i)) ! nat (m - 1)))
           (resources (songs w ! i)) k
      \<and> songs w' = upvote (songs w) i k
      \<and> writes w' = Suc (writes w)"
    by blast
qed

lemma ascii_remix: "lower ascii (strip ascii (S ''remix'')) = S ''remix''" "S ''remix'' \<noteq> []"
  by (simp_all add: ascii_def ascii_lower_def ascii_strip_def is_space_def S_def)

lemma search_R: "search ascii (world0 [song_R] inp) (S ''remix'') = [song_R]"
  by (simp add: search_def ascii_def ascii_lower_def world0_def song_R_def S_def sublist_code(3))

lemma resources_R:
  "resources song_R =
     [\<lparr>type = S ''vid.subs'', url = S ''u'', language = S ''en'', votes = 0, content = None\<rparr>,
      \<lparr>type = S ''vid.subs'', url = S ''u'', language = S ''es'', votes = 5, content = None\<rparr>]"
  by (simp add: song_R_def)

lemma sorted_R:
  "sort_resources (resources song_R) =
     [\<lparr>type = S ''vid.subs'', url = S ''u'', language = S ''es'', votes = 5, content = None\<rparr>,
      \<lparr>type = S ''vid.subs'', url = S ''u'', language = S ''en'', votes = 0, content = None\<rparr>]"
  by (simp add: resources_R sort_resources_def sorted_cmp_def compare_def S_def)

theorem vote_increments_first_same_type_url_witness:
  "sort_resources (resources song_R) ! nat (1 - 1) = resources song_R ! 1
   \<and> resources song_R ! 0 \<noteq> resources song_R ! 1
   \<and> (\<exists>w'. vote_on_resource ascii world_R = Inr w'
         \<and> songs w' = upvote [song_R] 0 0
         \<and> map votes (resources (songs w' ! 0)) = [1, 5]
         \<and> writes w' = 1)"
proof -
  have sR: "songs world_R = [song_R]" "stdin world_R = S ''remix'' # S ''1'' # S ''1'' # []"
    "writes world_R = 0"
    by (simp_all add: world_R_def world0_def)
  have res: "search ascii world_R (S ''remix'') = [song_R]"
    by (simp add: world_R_def search_R)
  have pick: "sort_resources (resources song_R) ! nat (1 - 1) = resources song_R ! 1"
    unfolding sorted_R by (simp add: resources_R)
  have ne: "resources song_R ! 0 \<noteq> resources song_R ! 1"
    by (simp add: resources_R S_def)
  have k0: "first_index (same_resource (sort_resources (resources song_R) ! nat (1 - 1)))
              (resources song_R) 0"
    unfolding pick by (simp add: resources_R first_index_0 same_resource_def)
  have h: "songs world_R \<noteq> [] \<and> stdin world_R = S ''remix'' # S ''1'' # S ''1'' # []
     \<and> lower ascii (strip ascii (S ''remix'')) \<noteq> []
     \<and> to_int ascii (S ''1'') = Some 1 \<and> (1::int) \<le> 1
     \<and> 1 \<le> int (length (search ascii world_R (lower ascii (strip ascii (S ''remix'')))))
     \<and> first_index (same_song (search ascii world_R (lower ascii (strip ascii (S ''remix'')))
          ! nat (1 - 1))) (songs world_R) 0
     \<and> resources (songs world_R ! 0) \<noteq> []
     \<and> to_int ascii (S ''1'') = Some 1 \<and> (1::int) \<le> 1
     \<and> 1 \<le> int (length (resources (songs world_R ! 0)))"
    by (simp add: sR ascii_evals ascii_remix res first_index_0 same_song_refl resources_R)
  from vote_increments_first_same_type_url [where L = ascii and w = world_R and q = "S ''remix''"
      and c = "S ''1''" and rc = "S ''1''" and rest = "[]" and n = 1 and m = 1 and i = 0,
      rule_format, OF h]
  obtain k w' where v: "vote_on_resource ascii world_R = Inr w'"
    and k: "first_index (same_resource (sort_resources (resources song_R) ! nat (1 - 1)))
              (resources song_R) k"
    and s: "songs w' = upvote [song_R] 0 k" "writes w' = 1"
    by (auto simp: sR)
  from first_index_unique [OF k k0] have "k = 0" .
  with s have s0: "songs w' = upvote [song_R] 0 0" by simp
  then have mv: "map votes (resources (songs w' ! 0)) = [1, 5]"
    by (simp add: upvote_def resources_R)
  have ex: "\<exists>w'. vote_on_resource ascii world_R = Inr w'
         \<and> songs w' = upvote [song_R] 0 0
         \<and> map votes (resources (songs w' ! 0)) = [1, 5]
         \<and> writes w' = 1"
    by (rule exI [of _ w']) (rule conjI [OF v conjI [OF s0 conjI [OF mv s(2)]]])
  show ?thesis
    by (rule conjI [OF pick conjI [OF ne ex]])
qed

section \<open>The vote counters are never negative\<close>

lemma votes_nonneg_simps [simp]:
  "votes_nonneg []"
  "votes_nonneg (sgs @ sgs') \<longleftrightarrow> votes_nonneg sgs \<and> votes_nonneg sgs'"
  by (simp_all add: votes_nonneg_def)

lemma loaded_songs_song_dict: "loaded_songs (map song_dict sgs) = sgs"
  by (induction sgs) (simp_all add: load_song_song_dict)

lemma well_typed_song_dict: "\<not> ill_typed_items (map song_dict sgs)"
  by (induction sgs) (simp_all add: load_song_song_dict)

lemma start_file_ok_saved:
  "votes_nonneg sgs \<Longrightarrow> start_file_ok (Doc (JList (map song_dict sgs)))"
  by (simp add: start_file_ok_def py_iter_def loaded_songs_song_dict well_typed_song_dict)

lemma start_file_ok_Malformed [simp]: "start_file_ok (Malformed m)"
  by (simp add: start_file_ok_def)

lemma db_inv_save: "votes_nonneg (songs w) \<Longrightarrow> db_inv (result_world (save L w))"
  by (simp add: db_inv_def save_def start_file_ok_saved result_world_def)

lemma db_inv_same_db: "same_db w w' \<Longrightarrow> db_inv w \<Longrightarrow> db_inv w'"
  by (simp add: db_inv_def same_db_def)

lemma load_loop_songs:
  "songs (result_world (load_loop items w)) = songs w @ loaded_songs items
   \<and> db_file (result_world (load_loop items w)) = db_file w"
proof (induction items arbitrary: w)
  case Nil
  show ?case by (simp add: result_world_def)
next
  case (Cons d ds)
  show ?case
  proof (cases "load_song d")
    case (Inl e)
    then show ?thesis by (simp add: result_world_def)
  next
    case (Inr sg)
    with Cons [of "w\<lparr>songs := songs w @ [sg]\<rparr>"] show ?thesis by simp
  qed
qed

lemma db_inv_load:
  assumes "db_inv w"
  shows "db_inv (result_world (load L w))"
proof (cases "db_file w")
  case Absent
  from assms have "votes_nonneg (songs w)" by (simp add: db_inv_def)
  then have "db_inv (result_world (save L w))" by (rule db_inv_save)
  with Absent show ?thesis
    by (simp add: load_def)
next
  case Not_utf8
  with assms show ?thesis
    by (simp add: load_def load_try_def json_load_def result_world_def)
next
  case (Malformed m)
  with assms show ?thesis
    by (simp add: load_def load_try_def json_load_def result_world_def db_inv_def py_print_def)
next
  case (Doc d)
  show ?thesis
  proof (cases "py_iter d")
    case (Inl e)
    then have "e = TypeError" by (auto simp: py_iter_def split: json.splits)
    with Inl Doc assms show ?thesis
      by (simp add: load_def load_try_def json_load_def result_world_def db_inv_def)
  next
    case (Inr items)
    let ?r = "load_loop items (w\<lparr>songs := []\<rparr>)"
    from Doc Inr assms have nn: "votes_nonneg (loaded_songs items)"
      by (simp add: db_inv_def start_file_ok_def)
    from load_loop_songs [of items "w\<lparr>songs := []\<rparr>"]
    have s: "songs (result_world ?r) = loaded_songs items" "db_file (result_world ?r) = db_file w"
      by simp_all
    with nn assms have inv: "db_inv (result_world ?r)" by (simp add: db_inv_def)
    from Doc Inr have lt: "load_try w = ?r"
      by (simp add: load_try_def json_load_def)
    show ?thesis
    proof (cases ?r)
      case (Inr w')
      with lt inv Doc show ?thesis by (simp add: load_def result_world_def)
    next
      case (Inl x)
      obtain e w' where x: "x = (e, w')" by (cases x)
      from Inl x inv have i': "db_inv w'" by (simp add: result_world_def)
      then have "db_inv ((py_print s w')\<lparr>songs := []\<rparr>)" for s
        by (simp add: db_inv_def py_print_def)
      with Inl x lt Doc i' show ?thesis
        by (cases e) (simp_all add: load_def result_world_def)
    qed
  qed
qed

lemma db_inv_init: "start_file_ok (db_file w) \<Longrightarrow> db_inv (result_world (init L w))"
  unfolding init_def by (rule db_inv_load) (simp add: db_inv_def)

lemma load_loop_well_typed:
  "load_loop items w = Inl (e, w') \<Longrightarrow> \<not> ill_typed_items items \<Longrightarrow> e \<noteq> Ill_typed"
proof (induction items arbitrary: w)
  case Nil
  then show ?case by simp
next
  case (Cons d ds)
  show ?case
  proof (cases "load_song d")
    case (Inl e')
    with Cons.prems show ?thesis by simp
  next
    case (Inr sg)
    with Cons.prems Cons.IH [of "w\<lparr>songs := songs w @ [sg]\<rparr>"] show ?thesis by simp
  qed
qed

lemma load_well_typed:
  assumes "start_file_ok (db_file w)"
  shows "load L w \<noteq> Inl (Ill_typed, w')"
proof (cases "db_file w")
  case Absent
  then show ?thesis by (simp add: load_def save_def)
next
  case Not_utf8
  then show ?thesis by (simp add: load_def load_try_def json_load_def)
next
  case (Malformed m)
  then show ?thesis by (simp add: load_def load_try_def json_load_def)
next
  case (Doc d)
  show ?thesis
  proof (cases "py_iter d")
    case (Inl e)
    then have "e = TypeError" by (auto simp: py_iter_def split: json.splits)
    with Inl Doc show ?thesis by (simp add: load_def load_try_def json_load_def)
  next
    case (Inr items)
    with Doc assms have wt: "\<not> ill_typed_items items" by (simp add: start_file_ok_def)
    from Doc Inr have lt: "load_try w = load_loop items (w\<lparr>songs := []\<rparr>)"
      by (simp add: load_try_def json_load_def)
    show ?thesis
    proof (cases "load_loop items (w\<lparr>songs := []\<rparr>)")
      case (Inr w2)
      with lt Doc show ?thesis by (simp add: load_def)
    next
      case (Inl x)
      obtain e w2 where x: "x = (e, w2)" by (cases x)
      from load_loop_well_typed [OF Inl [unfolded x] wt] have "e \<noteq> Ill_typed" .
      with Inl x lt Doc show ?thesis by (cases e) (simp_all add: load_def)
    qed
  qed
qed

lemma read_resources_outcome:
  "(case read_resources L rs w of
      Inl (e, w') \<Rightarrow> same_db w w'
    | Inr (rs', w') \<Rightarrow> same_db w w' \<and> (\<exists>new. rs' = rs @ new \<and> list_all (\<lambda>r. votes r = 0) new))"
proof (induction L rs w rule: read_resources.induct)
  case (1 L rs w)
  show ?case
  proof (cases "py_input (10 # S ''Add a resource? (y/n): '') w")
    case (Inl x)
    then show ?thesis
      by (subst read_resources.simps) (auto dest: py_input_Inl)
  next
    case a: (Inr x)
    obtain yn w1 where x: "x = (yn, w1)" by (cases x)
    from a x py_input_Inr have db1: "same_db w w1" by blast
    show ?thesis
    proof (cases "lower L yn = S ''y''")
      case False
      with a x db1 show ?thesis
        by (subst read_resources.simps) simp
    next
      case y: True
      show ?thesis
      proof (cases "py_input (S ''Type (e.g., vid.subs, vid.lyrics): '')
                      (py_print (10 # S ''--- New Resource ---'') w1)")
        case (Inl e)
        with a x y db1 show ?thesis
          by (subst read_resources.simps) (auto dest!: py_input_Inl intro: same_db_trans)
      next
        case b: (Inr x2)
        obtain t w2 where x2: "x2 = (t, w2)" by (cases x2)
        from b x2 py_input_Inr [of _ "py_print (10 # S ''--- New Resource ---'') w1" t w2] db1
        have db2: "same_db w w2" by (auto intro: same_db_trans)
        show ?thesis
        proof (cases "py_input (S ''URL: '') w2")
          case (Inl e)
          with a x y b x2 db2 show ?thesis
            by (subst read_resources.simps) (auto dest!: py_input_Inl intro: same_db_trans)
        next
          case c: (Inr x3)
          obtain u w3 where x3: "x3 = (u, w3)" by (cases x3)
          from c x3 py_input_Inr db2 have db3: "same_db w w3" by (blast intro: same_db_trans)
          show ?thesis
          proof (cases "py_input (S ''Language code (en/es/ja/etc) [en]: '') w3")
            case (Inl e)
            with a x y b x2 c x3 db3 show ?thesis
              by (subst read_resources.simps) (auto dest!: py_input_Inl intro: same_db_trans)
          next
            case d: (Inr x4)
            obtain l w4 where x4: "x4 = (l, w4)" by (cases x4)
            from d x4 py_input_Inr db3 have db4: "same_db w w4" by (blast intro: same_db_trans)
            show ?thesis
            proof (cases "py_input (S ''Content/notes (optional, press Enter to skip): '') w4")
              case (Inl e)
              with a x y b x2 c x3 d x4 db4 show ?thesis
                by (subst read_resources.simps) (auto dest!: py_input_Inl intro: same_db_trans)
            next
              case e: (Inr x5)
              obtain c' w5 where x5: "x5 = (c', w5)" by (cases x5)
              from e x5 py_input_Inr db4 have db5: "same_db w w5" by (blast intro: same_db_trans)
              let ?r = "\<lparr>type = strip L t, url = strip L u,
                         language = if strip L l = [] then S ''en'' else strip L l, votes = 0,
                         content = if strip L c' = [] then None else Some (strip L c')\<rparr>"
              let ?w6 = "py_print (S ''Resource added.'') w5"
              have ih: "case read_resources L (rs @ [?r]) ?w6 of
                          Inl (e, w') \<Rightarrow> same_db ?w6 w'
                        | Inr (rs', w') \<Rightarrow> same_db ?w6 w'
                            \<and> (\<exists>new. rs' = (rs @ [?r]) @ new \<and> list_all (\<lambda>r. votes r = 0) new)"
                using "1.IH" [OF a x [symmetric] _ b x2 [symmetric] c x3 [symmetric]
                    d x4 [symmetric] e x5 [symmetric]] y
                by simp
              have eq: "read_resources L rs w = read_resources L (rs @ [?r]) ?w6"
                using a x y b x2 c x3 d x4 e x5 by (subst read_resources.simps) simp
              from db5 have t: "same_db ?w6 v \<Longrightarrow> same_db w v" for v
                by (simp add: same_db_def py_print_def)
              from ih show ?thesis
                unfolding eq by (auto split: sum.splits intro: t)
            qed
          qed
        qed
      qed
    qed
  qed
qed

lemma py_input_raises:
  "py_input p w = Inl x \<Longrightarrow> same_db w0 w \<Longrightarrow> same_db w0 (result_world (Inl x))"
  by (cases x) (auto simp: result_world_def dest!: py_input_Inl intro: same_db_trans)

lemma add_song_outcome:
  "same_db w (result_world (add_song L w))
   \<or> (\<exists>sg. songs (result_world (add_song L w)) = songs w @ [sg]
         \<and> list_all (\<lambda>r. votes r = 0) (resources sg)
         \<and> (db_file (result_world (add_song L w)) = Doc (JList (map song_dict (songs w @ [sg])))
              \<or> (\<exists>m. db_file (result_world (add_song L w)) = Malformed m))
         \<and> writes (result_world (add_song L w)) = Suc (writes w))"
proof -
  let ?w0 = "py_print (10 # S ''=== Add New Song ==='') w"
  show ?thesis
  proof (cases "py_input (S ''Artist name: '') ?w0")
    case (Inl x)
    obtain e w' where "x = (e, w')" by (cases x)
    with Inl py_input_Inl [of _ ?w0 e w'] show ?thesis
      by (simp add: add_song_def result_world_def)
  next
    case a: (Inr x)
    obtain an w1 where x: "x = (an, w1)" by (cases x)
    from a x py_input_Inr [of _ ?w0 an w1] have db1: "same_db w w1" by simp
    show ?thesis
    proof (cases "strip L an = []")
      case True
      with a x db1 show ?thesis by (simp add: add_song_def result_world_def)
    next
      case na: False
      show ?thesis
      proof (cases "py_input (S ''Original artist name ['' @ strip L an @ S '']: '') w1")
        case (Inl e)
        from py_input_raises [OF Inl db1] have "same_db w (result_world (Inl e))" .
        moreover from a x na Inl have "add_song L w = Inl e" by (simp add: add_song_def)
        ultimately show ?thesis by simp
      next
        case b: (Inr x2)
        obtain ao w2 where x2: "x2 = (ao, w2)" by (cases x2)
        from b x2 py_input_Inr db1 have db2: "same_db w w2" by (blast intro: same_db_trans)
        show ?thesis
        proof (cases "py_input (S ''Song name: '') w2")
          case (Inl e)
          from py_input_raises [OF Inl db2] have "same_db w (result_world (Inl e))" .
          moreover from a x na b x2 Inl have "add_song L w = Inl e" by (simp add: add_song_def)
          ultimately show ?thesis by simp
        next
          case c: (Inr x3)
          obtain sn w3 where x3: "x3 = (sn, w3)" by (cases x3)
          from c x3 py_input_Inr db2 have db3: "same_db w w3" by (blast intro: same_db_trans)
          show ?thesis
          proof (cases "strip L sn = []")
            case True
            with a x na b x2 c x3 db3 show ?thesis by (simp add: add_song_def result_world_def)
          next
            case ns: False
            show ?thesis
            proof (cases "py_input (S ''Original song name ['' @ strip L sn @ S '']: '') w3")
              case (Inl e)
              from py_input_raises [OF Inl db3] have "same_db w (result_world (Inl e))" .
              moreover from a x na b x2 c x3 ns Inl have "add_song L w = Inl e"
                by (simp add: add_song_def)
              ultimately show ?thesis by simp
            next
              case d: (Inr x4)
              obtain so w4 where x4: "x4 = (so, w4)" by (cases x4)
              from d x4 py_input_Inr db3 have db4: "same_db w w4" by (blast intro: same_db_trans)
              show ?thesis
              proof (cases "read_resources L [] w4")
                case (Inl y)
                obtain e w5 where y: "y = (e, w5)" by (cases y)
                from read_resources_outcome [where L = L and rs = "[]" and w = w4] Inl y have "same_db w4 w5" by simp
                with db4 have "same_db w w5" by (rule same_db_trans)
                with a x na b x2 c x3 ns d x4 Inl y show ?thesis
                  by (simp add: add_song_def result_world_def)
              next
                case (Inr y)
                obtain rs w5 where y: "y = (rs, w5)" by (cases y)
                from read_resources_outcome [where L = L and rs = "[]" and w = w4] Inr y
                have "same_db w4 w5" and z: "list_all (\<lambda>r. votes r = 0) rs" by simp_all
                with db4 have "same_db w w5" by (blast intro: same_db_trans)
                then have s5: "songs w5 = songs w" "writes w5 = writes w"
                  by (simp_all add: same_db_def)
                from a x na b x2 c x3 ns d x4 Inr y s5 z
                have "\<exists>sg. songs (result_world (add_song L w)) = songs w @ [sg]
                       \<and> list_all (\<lambda>r. votes r = 0) (resources sg)
                       \<and> (db_file (result_world (add_song L w))
                             = Doc (JList (map song_dict (songs w @ [sg])))
                            \<or> (\<exists>m. db_file (result_world (add_song L w)) = Malformed m))
                       \<and> writes (result_world (add_song L w)) = Suc (writes w)"
                  by (simp add: add_song_def save_def py_print_def result_world_def)
                then show ?thesis ..
              qed
            qed
          qed
        qed
      qed
    qed
  qed
qed

lemma votes_nonneg_new_song:
  "list_all (\<lambda>r. votes r = 0) (resources sg) \<Longrightarrow> votes_nonneg [sg]"
  by (auto simp: votes_nonneg_def list_all_iff)

lemma list_all_update: "list_all P xs \<Longrightarrow> (i < length xs \<Longrightarrow> P y) \<Longrightarrow> list_all P (xs[i := y])"
  by (cases "i < length xs") (auto simp: list_all_length nth_list_update)

lemma votes_nonneg_upvote:
  assumes "votes_nonneg sgs"
  shows "votes_nonneg (upvote sgs i k)"
  unfolding votes_nonneg_def upvote_def
proof (rule list_all_update)
  from assms show "list_all (\<lambda>sg. list_all (\<lambda>r. 0 \<le> votes r) (resources sg)) sgs"
    by (simp add: votes_nonneg_def)
next
  assume "i < length sgs"
  with assms have rs: "list_all (\<lambda>r. 0 \<le> votes r) (resources (sgs ! i))"
    by (simp add: votes_nonneg_def list_all_length)
  have "list_all (\<lambda>r. 0 \<le> votes r) ((resources (sgs ! i))
          [k := (resources (sgs ! i) ! k)\<lparr>votes := votes (resources (sgs ! i) ! k) + 1\<rparr>])"
  proof (rule list_all_update [OF rs])
    assume "k < length (resources (sgs ! i))"
    with rs have "0 \<le> votes (resources (sgs ! i) ! k)" by (simp add: list_all_length)
    then show "0 \<le> votes ((resources (sgs ! i) ! k)\<lparr>votes := votes (resources (sgs ! i) ! k) + 1\<rparr>)"
      by simp
  qed
  then show "list_all (\<lambda>r. 0 \<le> votes r)
               (resources ((sgs ! i)\<lparr>resources := (resources (sgs ! i))
                  [k := (resources (sgs ! i) ! k)\<lparr>votes := votes (resources (sgs ! i) ! k) + 1\<rparr>]\<rparr>))"
    by simp
qed

lemma db_inv_add_song: "db_inv w \<Longrightarrow> db_inv (result_world (add_song L w))"
  using add_song_outcome [where w = w and L = L]
proof
  assume "db_inv w" "same_db w (result_world (add_song L w))"
  then show ?thesis by (simp add: db_inv_same_db)
next
  let ?w' = "result_world (add_song L w)"
  assume i: "db_inv w"
    and "\<exists>sg. songs ?w' = songs w @ [sg]
         \<and> list_all (\<lambda>r. votes r = 0) (resources sg)
         \<and> (db_file ?w' = Doc (JList (map song_dict (songs w @ [sg])))
              \<or> (\<exists>m. db_file ?w' = Malformed m))
         \<and> writes ?w' = Suc (writes w)"
  then obtain sg where a: "songs ?w' = songs w @ [sg]"
    "list_all (\<lambda>r. votes r = 0) (resources sg)"
    "db_file ?w' = Doc (JList (map song_dict (songs w @ [sg]))) \<or> (\<exists>m. db_file ?w' = Malformed m)"
    by blast
  from i a(2) have nn: "votes_nonneg (songs w @ [sg])"
    by (simp add: db_inv_def votes_nonneg_new_song)
  from a(3) start_file_ok_saved [OF nn] have "start_file_ok (db_file ?w')" by auto
  with nn a(1) show ?thesis by (simp add: db_inv_def)
qed

lemma db_inv_vote: "db_inv w \<Longrightarrow> db_inv (result_world (vote_on_resource L w))"
proof -
  assume i: "db_inv w"
  from vote_on_resource_outcome [of L w]
  consider w' where "vote_on_resource L w = Inr w'" "same_db w w'"
    | w' where "vote_on_resource L w = Inl (EOFError, w')" "same_db w w'"
    | j k w1 where "same_db w w1" "vote_on_resource L w = Inr (voted L w1 j k)"
    by blast
  then show ?thesis
  proof cases
    case 1
    with i show ?thesis by (simp add: result_world_def db_inv_same_db)
  next
    case 2
    with i show ?thesis by (simp add: result_world_def db_inv_same_db)
  next
    case 3
    from 3(1) have sw: "songs w1 = songs w" by (simp add: same_db_def)
    from same_db_voted [OF 3(1), of L j k]
    have s: "songs (voted L w1 j k) = upvote (songs w) j k" by simp
    from i have nn: "votes_nonneg (upvote (songs w) j k)"
      by (simp add: db_inv_def votes_nonneg_upvote)
    from start_file_ok_saved [OF nn] have "start_file_ok (db_file (voted L w1 j k))"
      by (simp add: db_file_voted sw)
    with s nn have "db_inv (voted L w1 j k)" by (simp add: db_inv_def)
    with 3(2) show ?thesis by (simp add: result_world_def)
  qed
qed

lemma reachable_db_inv: "reachable L w \<Longrightarrow> db_inv w"
proof (induction rule: reachable.induct)
  case (start w0)
  then show ?case by (rule db_inv_init)
next
  case (io w inp out)
  then show ?case by (simp add: db_inv_def)
next
  case (add w)
  then show ?case by (simp add: db_inv_add_song)
next
  case (vote w)
  then show ?case by (simp add: db_inv_vote)
next
  case (restart w)
  then have "start_file_ok (db_file w)" by (simp add: db_inv_def)
  then show ?case by (rule db_inv_init)
qed

lemma ascii_add_evals:
  "strip ascii [] = []" "strip ascii (S ''Ana'') = S ''Ana''" "strip ascii (S ''Song'') = S ''Song''"
  "strip ascii (S ''vid.subs'') = S ''vid.subs''" "strip ascii (S ''u'') = S ''u''"
  "lower ascii (S ''y'') = S ''y''" "lower ascii (S ''n'') = S ''n''"
  "S ''Ana'' \<noteq> []" "S ''Song'' \<noteq> []" "S ''n'' \<noteq> S ''y''"
  by (simp_all add: ascii_def ascii_lower_def ascii_strip_def is_space_def S_def)

lemma add_song_N: "\<exists>w'. add_song ascii world_N = Inr w' \<and> songs w' = [song_B, song_N]"
  by (simp add: add_song_def world_N_def world0_def py_input_def py_print_def save_def
      read_resources.simps ascii_add_evals song_N_def song_B_def song_encodable_def
      resource_encodable_def utf8_encodable_S)

lemma add_song_songs:
  "songs (result_world (add_song L w)) = songs w
   \<or> (\<exists>sg. songs (result_world (add_song L w)) = songs w @ [sg]
           \<and> list_all (\<lambda>r. votes r = 0) (resources sg))"
  using add_song_outcome [where w = w and L = L]
  by (auto simp: same_db_def)

lemma vote_songs:
  "songs (result_world (vote_on_resource L w)) = songs w
   \<or> (\<exists>i k. i < length (songs w) \<and> k < length (resources (songs w ! i))
           \<and> songs (result_world (vote_on_resource L w)) = upvote (songs w) i k)"
proof -
  from vote_on_resource_outcome [of L w]
  consider w' where "vote_on_resource L w = Inr w'" "same_db w w'"
    | w' where "vote_on_resource L w = Inl (EOFError, w')" "same_db w w'"
    | i k w1 where "same_db w w1" "i < length (songs w)" "k < length (resources (songs w ! i))"
        "vote_on_resource L w = Inr (voted L w1 i k)"
    by blast
  then show ?thesis
  proof cases
    case 1
    then show ?thesis by (simp add: result_world_def same_db_def)
  next
    case 2
    then show ?thesis by (simp add: result_world_def same_db_def)
  next
    case 3
    from same_db_voted [OF 3(1), of L i k] 3(4)
    have "songs (result_world (vote_on_resource L w)) = upvote (songs w) i k"
      by (simp add: result_world_def)
    with 3(2,3) show ?thesis by blast
  qed
qed

lemma votes_nonneg_ops:
  assumes "votes_nonneg (songs w)"
  shows "votes_nonneg (songs (result_world (add_song L w)))"
    and "votes_nonneg (songs (result_world (vote_on_resource L w)))"
proof -
  from add_song_songs [of L w] assms
  show "votes_nonneg (songs (result_world (add_song L w)))"
    by (auto simp: votes_nonneg_new_song)
  from vote_songs [of L w] assms
  show "votes_nonneg (songs (result_world (vote_on_resource L w)))"
    by (auto simp: votes_nonneg_upvote)
qed

text \<open>
  Claim C8, amended. \<^verbatim>\<open>load\<close> takes the counters as the file has them, so the invariant
  holds for the runs that start on a file without a negative counter: in every world
  the program reaches from a start file that is absent, does not parse, or is a document
  in which what \<^verbatim>\<open>load\<close> reads has the declared types and no negative counter, every
  resource of every song has votes \<open>\<ge> 0\<close>, and the file it has left is again such a
  start file. On such a file the constructor never meets an ill-typed value.
  \<^verbatim>\<open>add_song\<close> and \<^verbatim>\<open>vote_on_resource\<close> keep the counters non-negative, however they end.
  \<^verbatim>\<open>add_song\<close> leaves the collection as it is or appends one song whose resources all
  have 0 votes; \<^verbatim>\<open>vote_on_resource\<close> leaves it as it is or increments one counter by
  one.
\<close>

theorem votes_never_negative:
  "(reachable L w \<longrightarrow> votes_nonneg (songs w) \<and> start_file_ok (db_file w))
   \<and> (start_file_ok (db_file w) \<longrightarrow>
        votes_nonneg (songs (result_world (init L w)))
        \<and> (\<forall>w'. init L w \<noteq> Inl (Ill_typed, w')))
   \<and> (votes_nonneg (songs w) \<longrightarrow>
        votes_nonneg (songs (result_world (add_song L w)))
        \<and> votes_nonneg (songs (result_world (vote_on_resource L w))))
   \<and> (songs (result_world (add_song L w)) = songs w
      \<or> (\<exists>sg. songs (result_world (add_song L w)) = songs w @ [sg]
              \<and> list_all (\<lambda>r. votes r = 0) (resources sg)))
   \<and> (songs (result_world (vote_on_resource L w)) = songs w
      \<or> (\<exists>i k. i < length (songs w) \<and> k < length (resources (songs w ! i))
              \<and> songs (result_world (vote_on_resource L w)) = upvote (songs w) i k))"
proof (intro conjI impI allI)
  assume "reachable L w"
  then have "db_inv w" by (rule reachable_db_inv)
  then show "votes_nonneg (songs w)" "start_file_ok (db_file w)" by (simp_all add: db_inv_def)
next
  assume "start_file_ok (db_file w)"
  then have "db_inv (result_world (init L w))" by (rule db_inv_init)
  then show "votes_nonneg (songs (result_world (init L w)))" by (simp add: db_inv_def)
next
  fix w'
  assume "start_file_ok (db_file w)"
  then have "start_file_ok (db_file (w\<lparr>songs := []\<rparr>))" by simp
  then show "init L w \<noteq> Inl (Ill_typed, w')"
    unfolding init_def by (rule load_well_typed)
next
  assume "votes_nonneg (songs w)"
  then show "votes_nonneg (songs (result_world (add_song L w)))"
    by (rule votes_nonneg_ops)
next
  assume "votes_nonneg (songs w)"
  then show "votes_nonneg (songs (result_world (vote_on_resource L w)))"
    by (rule votes_nonneg_ops)
next
  show "songs (result_world (add_song L w)) = songs w
      \<or> (\<exists>sg. songs (result_world (add_song L w)) = songs w @ [sg]
              \<and> list_all (\<lambda>r. votes r = 0) (resources sg))"
    by (rule add_song_songs)
next
  show "songs (result_world (vote_on_resource L w)) = songs w
      \<or> (\<exists>i k. i < length (songs w) \<and> k < length (resources (songs w ! i))
              \<and> songs (result_world (vote_on_resource L w)) = upvote (songs w) i k)"
    by (rule vote_songs)
qed

lemma vote_on_A:
  assumes sw: "songs w = [song_A, song_B]" and inp: "stdin w = S ''s1'' # S ''1'' # S ''1'' # []"
  shows "\<exists>w1. same_db w w1 \<and> vote_on_resource ascii w = Inr (voted ascii w1 0 2)"
proof -
  have ne: "songs w \<noteq> []" by (simp add: sw)
  have q: "lower ascii (strip ascii (S ''s1'')) \<noteq> []" by (simp add: ascii_evals)
  have "search ascii w (S ''s1'') = search ascii (world0 [song_A, song_B] []) (S ''s1'')"
    by (simp add: search_def sw world0_def)
  then have res': "search ascii w (S ''s1'') = [song_A]" by (simp add: search_AB)
  have n: "to_int ascii (S ''1'') = Some 1" "(1::int) \<le> 1"
    "1 \<le> int (length (search ascii w (lower ascii (strip ascii (S ''s1'')))))"
    by (simp_all add: res' ascii_evals)
  have i: "first_index (same_song (search ascii w (lower ascii (strip ascii (S ''s1'')))
              ! nat (1 - 1))) (songs w) 0"
    by (simp add: res' ascii_evals sw first_index_0 same_song_refl)
  have s0: "songs w ! 0 = song_A" by (simp add: sw)
  have rne: "resources (songs w ! 0) \<noteq> []" by (simp add: s0 resources_A)
  have m: "1 \<le> int (length (resources (songs w ! 0)))" by (simp add: s0 resources_A)
  from vote_on_resource_voted [OF ne inp q n i rne n(1,2) m]
  obtain w1 k where w1: "same_db w w1"
    and k: "first_index (same_resource (sort_resources (resources song_A) ! 0)) (resources song_A) k"
    and v: "vote_on_resource ascii w = Inr (voted ascii w1 0 k)"
    unfolding s0 by auto
  from first_index_unique [OF k first_sync_A] have "k = 2" by simp
  with w1 v show ?thesis by blast
qed

lemma votes_nonneg_AB: "votes_nonneg [song_A, song_B]"
  by (simp add: votes_nonneg_def song_A_def song_B_def)

lemma init_world_S: "init ascii world_S = Inr (world_S\<lparr>songs := [song_A, song_B]\<rparr>)"
  by (simp add: init_def load_def load_try_def json_load_def py_iter_def world_S_def
      load_song_song_dict Let_def)

theorem votes_never_negative_witness:
  "reachable ascii world_V \<and> votes_nonneg (songs world_V) \<and> start_file_ok (db_file world_V)
   \<and> songs world_V = upvote [song_A, song_B] 0 2
   \<and> start_file_ok (db_file world_S)
   \<and> init ascii world_S = Inr (world_S\<lparr>songs := [song_A, song_B]\<rparr>)
   \<and> votes_nonneg (songs (result_world (init ascii world_S)))
   \<and> (\<forall>w'. init ascii world_S \<noteq> Inl (Ill_typed, w'))
   \<and> votes_nonneg (songs world_N)
   \<and> votes_nonneg (songs (result_world (add_song ascii world_N)))
   \<and> votes_nonneg (songs (result_world (vote_on_resource ascii world_N)))
   \<and> songs (result_world (add_song ascii world_N)) = songs world_N @ [song_N]
   \<and> list_all (\<lambda>r. votes r = 0) (resources song_N)"
proof -
  let ?w1 = "(result_world (init ascii world_S))\<lparr>stdin := [S ''s1'', S ''1'', S ''1''], stdout := []\<rparr>"
  have f: "start_file_ok (db_file world_S)"
    using start_file_ok_saved [OF votes_nonneg_AB] by (simp add: world_S_def)
  then have "reachable ascii (result_world (init ascii world_S))" by (rule reachable.start)
  then have "reachable ascii ?w1" by (rule reachable.io)
  then have "reachable ascii (result_world (vote_on_resource ascii ?w1))" by (rule reachable.vote)
  then have r: "reachable ascii world_V" by (simp add: world_V_def)
  from votes_never_negative [of ascii world_V] r
  have v: "votes_nonneg (songs world_V)" "start_file_ok (db_file world_V)" by blast+
  have "songs ?w1 = [song_A, song_B]" "stdin ?w1 = S ''s1'' # S ''1'' # S ''1'' # []"
    by (simp_all add: init_world_S result_world_def)
  from vote_on_A [OF this]
  obtain w2 where "same_db ?w1 w2" "vote_on_resource ascii ?w1 = Inr (voted ascii w2 0 2)" by blast
  then have s: "songs world_V = upvote [song_A, song_B] 0 2"
    by (simp add: world_V_def result_world_def songs_voted same_db_def init_world_S)
  from votes_never_negative [of ascii world_S] f
  have i: "votes_nonneg (songs (result_world (init ascii world_S)))"
    "\<forall>w'. init ascii world_S \<noteq> Inl (Ill_typed, w')"
    by blast+
  have nN: "votes_nonneg (songs world_N)"
    by (simp add: world_N_def world0_def votes_nonneg_def song_B_def)
  from votes_never_negative [of ascii world_N] nN
  have ops: "votes_nonneg (songs (result_world (add_song ascii world_N)))"
    "votes_nonneg (songs (result_world (vote_on_resource ascii world_N)))"
    by blast+
  from add_song_N obtain w' where a: "add_song ascii world_N = Inr w'" "songs w' = [song_B, song_N]"
    by blast
  then have e: "songs (result_world (add_song ascii world_N)) = songs world_N @ [song_N]"
    by (simp add: world_N_def world0_def result_world_def)
  have z: "list_all (\<lambda>r. votes r = 0) (resources song_N)"
    by (simp add: song_N_def)
  show ?thesis
    by (intro conjI r v s f init_world_S i nN ops e z)
qed

text \<open>
  The claim as it stands, for every reachable state, fails in the state the constructor
  leaves: \<^verbatim>\<open>load\<close> does not look at the counters it reads. On the document of one song
  whose only resource has \<^verbatim>\<open>"votes": -3\<close> the constructor returns normally with that
  resource in the collection.
\<close>

theorem load_negative_votes:
  "init ascii (world_file (Doc doc_negative))
     = Inr ((world_file (Doc doc_negative))\<lparr>songs := [song_negative]\<rparr>)
   \<and> map votes (resources song_negative) = [- 3]
   \<and> \<not> votes_nonneg (songs (result_world (init ascii (world_file (Doc doc_negative)))))"
proof -
  have l: "init ascii (world_file (Doc doc_negative))
     = Inr ((world_file (Doc doc_negative))\<lparr>songs := [song_negative]\<rparr>)"
    by (simp add: init_def load_def load_try_def json_load_def py_iter_def world_file_def
        doc_negative_def song_negative_def load_song_def Resource_kwargs_def S_def
        as_str_def as_int_def as_opt_str_def)
  show ?thesis
    unfolding l by (simp add: result_world_def votes_nonneg_def song_negative_def)
qed

section \<open>Loading a deficient document\<close>

lemma load_malformed:
  "db_file w = Malformed m \<Longrightarrow>
     load L w = Inr (w\<lparr>songs := [], stdout := stdout w @ [Print (S ''Error loading database: '' @ m)]\<rparr>)"
  by (simp add: load_def load_try_def json_load_def py_print_def)

lemma load_KeyError:
  "db_file w \<noteq> Absent \<Longrightarrow> load_try w = Inl (KeyError k, w') \<Longrightarrow>
     load L w = Inr (w'\<lparr>songs := [],
       stdout := stdout w' @ [Print (S ''Error loading database: '' @ [39] @ k @ [39])]\<rparr>)"
  by (simp add: load_def py_print_def)

lemma load_song_missing_field:
  assumes "py_iter (case map_of d (S ''resources'') of None \<Rightarrow> JList [] | Some v \<Rightarrow> v) = Inr items"
    and "load_resources items = Inr rs"
    and "map_of d (S ''artist'') = None \<or> map_of d (S ''song'') = None
         \<or> map_of d (S ''artist_original'') = None \<or> map_of d (S ''song_original'') = None"
  shows "\<exists>k. load_song (JDict d) = Inl (KeyError k)"
  using assms by (auto simp: load_song_def split: option.splits)

lemma Resource_kwargs_missing_field:
  "map_of kw (S ''type'') = None \<or> map_of kw (S ''url'') = None \<or> map_of kw (S ''language'') = None
     \<Longrightarrow> Resource_kwargs (JDict kw) = Inl TypeError"
  by (auto simp: Resource_kwargs_def split: option.splits)

lemma load_TypeError:
  "db_file w \<noteq> Absent \<Longrightarrow> load_try w = Inl (TypeError, w') \<Longrightarrow> load L w = Inl (TypeError, w')"
  by (simp add: load_def)

text \<open>
  Claim C5 says that \<^verbatim>\<open>load\<close>, given a document that does not parse or that lacks a
  required field, empties the collection, prints an error and returns normally, for
  song fields and resource records alike. The code does so for a parse error and for a
  song without a required field. A resource without a required field makes
  \<^verbatim>\<open>Resource(**res)\<close> raise \<^verbatim>\<open>TypeError\<close>, which the handler of \<^verbatim>\<open>load\<close> does not
  catch: the exception leaves \<^verbatim>\<open>load\<close> with nothing printed (and, raised in the
  constructor, ends the program).
\<close>

theorem load_resource_without_type:
  "load L (world_file (Malformed m)) =
     Inr ((world_file (Malformed m))
            \<lparr>songs := [], stdout := [Print (S ''Error loading database: '' @ m)]\<rparr>)
   \<and> load L (world_file (Doc doc_no_artist)) =
     Inr ((world_file (Doc doc_no_artist))
            \<lparr>songs := [], stdout := [Print (S ''Error loading database: '' @ [39] @ S ''artist'' @ [39])]\<rparr>)
   \<and> load L (world_file (Doc doc_no_type)) =
     Inl (TypeError, (world_file (Doc doc_no_type))\<lparr>songs := []\<rparr>)"
  by (simp add: load_def load_try_def json_load_def py_iter_def py_print_def world_file_def
      doc_no_artist_def doc_no_type_def load_song_def Resource_kwargs_def S_def Let_def)

end
